theory Spec2Isabelle
  imports Main "HOL-Library.Char_ord" "HOL-Library.List_Lexorder" "HOL-Library.Product_Lexorder"
begin

section \<open>Python string primitives used by the services\<close>

text \<open>
  Strings are lists of characters. The character classes below are the ASCII part of
  Python's \<open>str.isspace\<close>, \<open>str.isdigit\<close> and of the regular-expression classes
  \<open>\s\<close>, \<open>\w\<close>, \<open>\d\<close>; text outside ASCII is outside the model.
\<close>

datatype error = ValueError string | IntegrityError | OperationalError | ProgrammingError
  | TypeError | AttributeError

definition is_space :: "char \<Rightarrow> bool" where
  "is_space c = (let n = (of_char c :: nat) in (9 \<le> n \<and> n \<le> 13) \<or> (28 \<le> n \<and> n \<le> 32))"

definition is_digit :: "char \<Rightarrow> bool" where
  "is_digit c = (let n = (of_char c :: nat) in 48 \<le> n \<and> n \<le> 57)"

definition digit_val :: "char \<Rightarrow> nat" where
  "digit_val c = of_char c - 48"

definition digit_chr :: "nat \<Rightarrow> char" where
  "digit_chr d = char_of (48 + d)"

text \<open>\<open>s.strip()\<close>: whitespace removed at both ends.\<close>

definition py_strip :: "string \<Rightarrow> string" where
  "py_strip s = rev (dropWhile is_space (rev (dropWhile is_space s)))"

text \<open>\<open>s.split(c)\<close> for a one-character separator: never the empty list.\<close>

fun split_chr :: "char \<Rightarrow> string \<Rightarrow> string list" where
  "split_chr c [] = [[]]"
| "split_chr c (x # xs) =
     (if x = c then [] # split_chr c xs
      else (case split_chr c xs of
              [] \<Rightarrow> [[x]]
            | p # ps \<Rightarrow> (x # p) # ps))"

text \<open>\<open>c.join(parts)\<close>.\<close>

fun join_chr :: "char \<Rightarrow> string list \<Rightarrow> string" where
  "join_chr c [] = []"
| "join_chr c [p] = p"
| "join_chr c (p # q # ps) = p @ c # join_chr c (q # ps)"

text \<open>\<open>str(n)\<close> for an integer: decimal digits, a minus sign for a negative one.\<close>

fun str_nat :: "nat \<Rightarrow> string" where
  "str_nat n = (if n < 10 then [digit_chr n] else str_nat (n div 10) @ [digit_chr (n mod 10)])"

declare str_nat.simps [simp del]

definition py_str :: "int \<Rightarrow> string" where
  "py_str i = (if i < 0 then CHR ''-'' # str_nat (nat (- i)) else str_nat (nat i))"

text \<open>
  \<open>int(s)\<close> in base 10: surrounding whitespace is dropped, one sign is allowed, and the
  digits may be grouped by single underscores. \<open>None\<close> is Python's \<open>ValueError\<close>.
  \<open>int_body acc prev s\<close> reads the digits; \<open>prev\<close> says that the character before was a
  digit (an underscore is legal only between two digits).
\<close>

fun int_body :: "nat \<Rightarrow> bool \<Rightarrow> string \<Rightarrow> nat option" where
  "int_body acc prev [] = (if prev then Some acc else None)"
| "int_body acc prev (c # cs) =
     (if is_digit c then int_body (10 * acc + digit_val c) True cs
      else if c = CHR ''_'' \<and> prev then int_body acc False cs
      else None)"

definition py_int :: "string \<Rightarrow> int option" where
  "py_int s =
     (case py_strip s of
        [] \<Rightarrow> None
      | c # cs \<Rightarrow>
          if c = CHR ''-'' then map_option (\<lambda>n. - int n) (int_body 0 False cs)
          else if c = CHR ''+'' then map_option int (int_body 0 False cs)
          else map_option int (int_body 0 False (c # cs)))"

section \<open>ZeroIndexMapper: token addresses\<close>

text \<open>\<open>get_token_addr\<close>: the f-string \<open>{sentence_uuid}-{token_position}\<close>.\<close>

definition get_token_addr :: "string \<Rightarrow> int \<Rightarrow> string" where
  "get_token_addr sentence_uuid token_position = sentence_uuid @ CHR ''-'' # py_str token_position"

text \<open>
  \<open>resolve_token_addr\<close>: split on dashes, the last part is the position, the parts before
  it are joined again into the sentence identifier. \<open>None\<close> when there is no dash or the
  last part is not an integer.
\<close>

definition resolve_token_addr :: "string \<Rightarrow> (string \<times> int) option" where
  "resolve_token_addr token_addr =
     (let parts = split_chr CHR ''-'' token_addr in
      if length parts < 2 then None
      else (case py_int (last parts) of
              None \<Rightarrow> None
            | Some position \<Rightarrow> Some (join_chr CHR ''-'' (butlast parts), position)))"

section \<open>Facts about the string primitives\<close>

lemma split_chr_nonempty: "split_chr c s \<noteq> []"
  by (induction s) (auto split: list.splits)

lemma join_split_chr: "join_chr c (split_chr c s) = s"
proof (induction s)
  case Nil
  show ?case by simp
next
  case (Cons x xs)
  obtain p ps where ps: "split_chr c xs = p # ps"
    using split_chr_nonempty [of c xs] by (cases "split_chr c xs") auto
  show ?case
  proof (cases "x = c")
    case True
    with Cons ps show ?thesis by simp
  next
    case False
    with Cons ps show ?thesis by (cases ps) auto
  qed
qed

lemma split_chr_append:
  "c \<notin> set t \<Longrightarrow> split_chr c (u @ c # t) = split_chr c u @ [t]"
proof (induction u)
  case Nil
  have "split_chr c t = [t]" using Nil by (induction t) auto
  then show ?case by simp
next
  case (Cons x xs)
  obtain p ps where ps: "split_chr c xs = p # ps"
    using split_chr_nonempty [of c xs] by (cases "split_chr c xs") auto
  with Cons show ?case by auto
qed

lemma join_chr_snoc: "xs \<noteq> [] \<Longrightarrow> join_chr c (xs @ [y]) = join_chr c xs @ c # y"
  by (induction c xs rule: join_chr.induct) auto

lemma split_chr_length: "c \<in> set s \<Longrightarrow> 2 \<le> length (split_chr c s)"
proof (induction s)
  case Nil
  then show ?case by simp
next
  case (Cons x xs)
  obtain p ps where ps: "split_chr c xs = p # ps"
    using split_chr_nonempty [of c xs] by (cases "split_chr c xs") auto
  show ?case
  proof (cases "x = c")
    case True
    with ps show ?thesis by simp
  next
    case False
    with Cons ps show ?thesis by auto
  qed
qed

lemma digit_chr_simps:
  "digit_chr 0 = CHR ''0''" "digit_chr (Suc 0) = CHR ''1''" "digit_chr 2 = CHR ''2''"
  "digit_chr 3 = CHR ''3''" "digit_chr 4 = CHR ''4''" "digit_chr 5 = CHR ''5''"
  "digit_chr 6 = CHR ''6''" "digit_chr 7 = CHR ''7''" "digit_chr 8 = CHR ''8''"
  "digit_chr 9 = CHR ''9''"
  by code_simp+

lemma str_nat_digits: "\<forall>c \<in> set (str_nat n). is_digit c"
proof (induction n rule: str_nat.induct)
  case (1 n)
  have d: "is_digit (digit_chr k)" if "k < 10" for k
    using that by (simp add: is_digit_def digit_chr_def)
  show ?case
  proof (cases "n < 10")
    case True
    then show ?thesis by (subst str_nat.simps) (simp add: d)
  next
    case False
    with 1 show ?thesis by (subst str_nat.simps) (simp add: d)
  qed
qed

lemma str_nat_nonempty: "str_nat n \<noteq> []"
  by (subst str_nat.simps) simp

lemma digit_val_chr: "k < 10 \<Longrightarrow> digit_val (digit_chr k) = k"
  by (simp add: digit_val_def digit_chr_def)

lemma int_body_digits:
  "\<forall>c \<in> set ds. is_digit c \<Longrightarrow> ds \<noteq> [] \<Longrightarrow>
   int_body acc prev ds = Some (foldl (\<lambda>a c. 10 * a + digit_val c) acc ds)"
proof (induction ds arbitrary: acc prev)
  case Nil
  then show ?case by simp
next
  case (Cons d ds)
  from Cons.prems have d: "is_digit d" and r: "\<forall>c \<in> set ds. is_digit c" by simp_all
  show ?case
  proof (cases ds)
    case Nil
    with d show ?thesis by simp
  next
    case (Cons e es)
    then have "ds \<noteq> []" by simp
    from Cons.IH [OF r this, of "10 * acc + digit_val d" True] d
    show ?thesis by simp
  qed
qed

lemma foldl_str_nat: "foldl (\<lambda>a c. 10 * a + digit_val c) 0 (str_nat n) = n"
proof (induction n rule: str_nat.induct)
  case (1 n)
  show ?case
  proof (cases "n < 10")
    case True
    then show ?thesis by (subst str_nat.simps) (simp add: digit_val_chr)
  next
    case False
    with 1 show ?thesis by (subst str_nat.simps) (simp add: digit_val_chr)
  qed
qed

lemma digit_not_space: "is_digit c \<Longrightarrow> \<not> is_space c"
  by (auto simp: is_digit_def is_space_def Let_def)

lemma py_strip_digits:
  assumes "\<forall>c \<in> set ds. is_digit c"
  shows "py_strip ds = ds"
proof (cases ds)
  case Nil
  then show ?thesis by (simp add: py_strip_def)
next
  case (Cons d ds')
  with assms have h: "\<not> is_space (hd ds)" by (simp add: digit_not_space)
  from Cons assms have l: "\<not> is_space (hd (rev ds))"
    by (metis digit_not_space hd_rev last_in_set list.distinct(1))
  from Cons h have "dropWhile is_space ds = ds" by simp
  moreover from Cons l have "dropWhile is_space (rev ds) = rev ds"
    by (cases "rev ds") auto
  ultimately show ?thesis by (simp add: py_strip_def)
qed

lemma py_int_str_nat: "py_int (str_nat n) = Some (int n)"
proof -
  obtain d ds where e: "str_nat n = d # ds"
    using str_nat_nonempty [of n] by (cases "str_nat n") auto
  have dig: "\<forall>c \<in> set (str_nat n). is_digit c" by (rule str_nat_digits)
  with e have "is_digit d" by simp
  then have ns: "d \<noteq> CHR ''-''" "d \<noteq> CHR ''+''"
    by (auto simp: is_digit_def)
  have "int_body 0 False (str_nat n) = Some n"
    using int_body_digits [OF dig str_nat_nonempty, of 0 False] by (simp add: foldl_str_nat)
  with e ns show ?thesis
    using py_strip_digits [OF dig] by (simp add: py_int_def)
qed

lemma str_nat_no_dash: "CHR ''-'' \<notin> set (str_nat n)"
  using str_nat_digits [of n] by (auto simp: is_digit_def)

section \<open>The environment: hashing and random identifiers\<close>

text \<open>
  \<open>hashlib.sha256(..).hexdigest()\<close> and \<open>uuid.uuid4()\<close> are library calls. The hash is a
  function of the text; the random identifiers are a stream, \<open>uuid4_hex E n\<close> being the
  \<open>.hex\<close> form of the value returned by the \<open>n\<close>-th call, and every state counts the calls
  made so far. \<open>str(uuid.uuid4())\<close> is that value with dashes after 8, 12, 16 and 20 digits.
  For the float that \<open>float(lit)\<close> returns, \<open>float_truth E lit\<close> is its truth value and
  \<open>float_sql_text E lit\<close> the text SQLite turns it into when it is compared with a text
  column. \<open>bert_tokenize\<close> is the tokenizer of \<open>bert-base-uncased\<close> and \<open>bert_embedding\<close> the
  bytes of the embedding that the model gives a text.
\<close>

record env =
  sha256_hex :: "string \<Rightarrow> string"
  uuid4_hex :: "nat \<Rightarrow> string"
  float_truth :: "string \<Rightarrow> bool"
  float_sql_text :: "string \<Rightarrow> string"
  bert_tokenize :: "string \<Rightarrow> string list"
  bert_embedding :: "string \<Rightarrow> string"

definition uuid4_str :: "env \<Rightarrow> nat \<Rightarrow> string" where
  "uuid4_str E n =
     (let h = uuid4_hex E n in
      take 8 h @ CHR ''-'' # take 4 (drop 8 h) @ CHR ''-'' # take 4 (drop 12 h) @
      CHR ''-'' # take 4 (drop 16 h) @ CHR ''-'' # drop 20 h)"

section \<open>LStableManager: long and short identifiers\<close>

text \<open>
  The table \<open>lstable\<close> (\<open>dbidL\<close> primary key, \<open>dbidS\<close> unique; the timestamp column is left
  out), the \<open>.LStable\<close> file of each collection, keyed by the long identifier that names
  its directory, and the \<open>.GlobalLStable\<close> file. A file is its content, \<open>None\<close> when it
  does not exist.
\<close>

record ls_row =
  ls_dbidL :: string
  ls_dbidS :: string
  ls_description :: "string option"

record ls_state =
  lstable :: "ls_row list"
  ls_files :: "string \<Rightarrow> string option"
  global_file :: "string option"
  ls_drawn :: nat

text \<open>Reading a text file: \<open>\r\n\<close> and \<open>\r\<close> arrive as \<open>\n\<close>; \<open>readlines\<close> keeps the line ends.\<close>

fun universal_newlines :: "string \<Rightarrow> string" where
  "universal_newlines [] = []"
| "universal_newlines [c] = (if c = CHR 0x0D then [CHR 0x0A] else [c])"
| "universal_newlines (c # d # cs) =
     (if c = CHR 0x0D then
        (if d = CHR 0x0A then CHR 0x0A # universal_newlines cs
         else CHR 0x0A # universal_newlines (d # cs))
      else c # universal_newlines (d # cs))"

fun readlines :: "string \<Rightarrow> string list" where
  "readlines [] = []"
| "readlines (c # cs) =
     (if c = CHR 0x0A then [c] # readlines cs
      else (case readlines cs of
              [] \<Rightarrow> [[c]]
            | l # ls \<Rightarrow> (c # l) # ls))"

definition startswith :: "string \<Rightarrow> string \<Rightarrow> bool" where
  "startswith s p = (take (length p) s = p)"

text \<open>The loop over the lines: the first line of the key is replaced, and the loop stops.\<close>

fun replace_first :: "(string \<Rightarrow> bool) \<Rightarrow> string \<Rightarrow> string list \<Rightarrow> string list option" where
  "replace_first P new [] = None"
| "replace_first P new (l # ls) =
     (if P l then Some (new # ls) else map_option ((#) l) (replace_first P new ls))"

definition update_lines :: "string \<Rightarrow> string \<Rightarrow> string list \<Rightarrow> string list" where
  "update_lines dbidL dbidS lines =
     (let new = dbidL @ CHR ''='' # dbidS @ [CHR 0x0A] in
      case replace_first (\<lambda>line. startswith (py_strip line) (dbidL @ ''='')) new lines of
        Some lines' \<Rightarrow> lines'
      | None \<Rightarrow> lines @ [new])"

definition file_lines :: "string option \<Rightarrow> string list" where
  "file_lines f = (case f of None \<Rightarrow> [] | Some content \<Rightarrow> readlines (universal_newlines content))"

definition update_lstable_file :: "ls_state \<Rightarrow> string \<Rightarrow> string \<Rightarrow> ls_state" where
  "update_lstable_file st dbidL dbidS =
     st\<lparr>ls_files := (ls_files st)
            (dbidL \<mapsto> concat (update_lines dbidL dbidS (file_lines (ls_files st dbidL)))),
        global_file := Some (concat (update_lines dbidL dbidS (file_lines (global_file st))))\<rparr>"

text \<open>\<open>INSERT INTO lstable\<close>: the primary key and the unique column reject a duplicate.\<close>

definition ls_insert :: "ls_row \<Rightarrow> ls_row list \<Rightarrow> error + ls_row list" where
  "ls_insert r tbl =
     (if ls_dbidL r \<in> set (map ls_dbidL tbl) \<or> ls_dbidS r \<in> set (map ls_dbidS tbl)
      then Inl IntegrityError else Inr (tbl @ [r]))"

text \<open>
  The \<open>while True\<close> loop of \<open>register_mapping\<close>: identifiers are drawn until one is not in
  the table. The result is the identifier and the number of calls made; \<open>None\<close> when the
  loop never ends.
\<close>

partial_function (option) fresh_dbidS :: "env \<Rightarrow> ls_row list \<Rightarrow> nat \<Rightarrow> (string \<times> nat) option" where
  "fresh_dbidS E tbl n =
     (if take 8 (uuid4_hex E n) \<in> set (map ls_dbidS tbl)
      then fresh_dbidS E tbl (Suc n)
      else Some (take 8 (uuid4_hex E n), Suc n))"

text \<open>The short identifier the call starts with: the argument, or a random one when it is
  \<open>None\<close> or empty.\<close>

definition requested_dbidS :: "env \<Rightarrow> ls_state \<Rightarrow> string option \<Rightarrow> string \<times> ls_state" where
  "requested_dbidS E st dbidS =
     (case dbidS of
        None \<Rightarrow> (take 8 (uuid4_hex E (ls_drawn st)), st\<lparr>ls_drawn := Suc (ls_drawn st)\<rparr>)
      | Some s \<Rightarrow>
          if s = [] then (take 8 (uuid4_hex E (ls_drawn st)), st\<lparr>ls_drawn := Suc (ls_drawn st)\<rparr>)
          else (s, st))"

text \<open>
  \<open>register_mapping\<close>. The outer \<open>option\<close> is \<open>None\<close> when the regeneration loop does not
  end; an exception leaves the table as it was.
\<close>

definition register_mapping ::
  "env \<Rightarrow> ls_state \<Rightarrow> string \<Rightarrow> string option \<Rightarrow> string option
   \<Rightarrow> ((error + string \<times> string) \<times> ls_state) option" where
  "register_mapping E st dbidL dbidS description =
     (case requested_dbidS E st dbidS of (s, st1) \<Rightarrow>
        (case find (\<lambda>r. ls_dbidL r = dbidL) (lstable st1) of
           Some existing \<Rightarrow> Some (Inr (dbidL, ls_dbidS existing), st1)
         | None \<Rightarrow>
             (case (if s \<in> set (map ls_dbidS (lstable st1))
                    then fresh_dbidS E (lstable st1) (ls_drawn st1)
                    else Some (s, ls_drawn st1)) of
                None \<Rightarrow> None
              | Some (s', n) \<Rightarrow>
                  (case ls_insert \<lparr>ls_dbidL = dbidL, ls_dbidS = s', ls_description = description\<rparr>
                          (lstable st1) of
                     Inl e \<Rightarrow> Some (Inl e, st1\<lparr>ls_drawn := n\<rparr>)
                   | Inr tbl \<Rightarrow>
                       Some (Inr (dbidL, s'),
                             update_lstable_file (st1\<lparr>lstable := tbl, ls_drawn := n\<rparr>) dbidL s')))))"

section \<open>The store: SQLite tables and HDF5 groups\<close>

text \<open>
  One row type for each table of \<open>_init_database\<close>; a table is the list of its rows in
  insertion order. The \<open>created_at\<close> and \<open>embedding\<close> columns, and the row numbers that no
  function reads, are left out. The table \<open>relations\<close> is created by \<open>set_relation\<close> only,
  so it may be absent (\<open>None\<close>). An HDF5 group maps a member's name to its content.
  \<open>drawn\<close> counts the calls of \<open>uuid.uuid4\<close>.
\<close>

record doc_row =
  d_uuid :: string
  d_dbidL :: string
  d_dbidS :: string
  d_title :: "string option"
  d_source :: "string option"
  d_metadata :: "string option"

record sentence_row =
  s_uuid :: string
  s_text :: string
  s_hash :: string

record dsm_row =
  m_doc_uuid :: string
  m_sentence_uuid :: string
  m_position :: int

record token_row =
  t_id :: nat
  t_text :: string
  t_hash :: string

record stm_row =
  tm_sentence_uuid :: string
  tm_token_id :: nat
  tm_position :: int

record addr_row =
  a_addr :: string
  a_uuid :: "string option"
  a_type :: "string option"
  a_parent_addr :: "string option"
  a_coordinate_system :: "string option"
  a_is_origin :: bool
  a_zero_index :: int

record rel_row =
  r_source_uuid :: string
  r_target_uuid :: string
  r_relation_type :: string

record h5_document =
  hd_dbidL :: string
  hd_dbidS :: string
  hd_title :: string
  hd_source :: string
  hd_content :: string
  hd_sentences :: "(string \<times> string) list"

record h5_sentence =
  hs_hash :: string
  hs_text :: string

record h5_token =
  ht_sentence_uuid :: string
  ht_position :: int
  ht_text :: string

record db =
  documents :: "doc_row list"
  sentences :: "sentence_row list"
  doc_sentence_map :: "dsm_row list"
  tokens :: "token_row list"
  sentence_token_map :: "stm_row list"
  address_book :: "addr_row list"
  address_attributes :: "(string \<times> string \<times> string) list"
  relations :: "rel_row list option"
  h5_documents :: "string \<Rightarrow> h5_document option"
  h5_sentences :: "string \<Rightarrow> h5_sentence option"
  h5_tokens :: "string \<Rightarrow> h5_token option"
  drawn :: nat

section \<open>AddressManager.create_address\<close>

text \<open>The parent of an address: the address without its last dash-separated part.\<close>

definition parent_addr_of :: "string \<Rightarrow> string option" where
  "parent_addr_of addr =
     (if CHR ''-'' \<in> set addr
      then Some (join_chr CHR ''-'' (butlast (split_chr CHR ''-'' addr)))
      else None)"

definition coalesce :: "'a option \<Rightarrow> 'a option \<Rightarrow> 'a option" where
  "coalesce new old = (case new of Some v \<Rightarrow> Some v | None \<Rightarrow> old)"

text \<open>The \<open>UPDATE\<close> of an address that exists.\<close>

definition update_address :: "db \<Rightarrow> string \<Rightarrow> string option \<Rightarrow> string option \<Rightarrow> int \<Rightarrow> db" where
  "update_address st addr uuid_value addr_type zero_index =
     st\<lparr>address_book :=
          map (\<lambda>r. if a_addr r = addr
                    then r\<lparr>a_uuid := coalesce uuid_value (a_uuid r),
                           a_type := coalesce addr_type (a_type r),
                           a_zero_index := zero_index\<rparr>
                    else r)
              (address_book st)\<rparr>"

text \<open>The \<open>INSERT\<close> of a new address; the column \<open>addr\<close> is unique.\<close>

definition insert_address ::
  "db \<Rightarrow> string \<Rightarrow> string option \<Rightarrow> string option \<Rightarrow> string option \<Rightarrow> int
   \<Rightarrow> (error + string) \<times> db" where
  "insert_address st addr uuid_value addr_type parent_addr zero_index =
     (if addr \<in> set (map a_addr (address_book st)) then (Inl IntegrityError, st)
      else (Inr addr,
            st\<lparr>address_book := address_book st @
                 [\<lparr>a_addr = addr, a_uuid = uuid_value, a_type = addr_type,
                   a_parent_addr = parent_addr, a_coordinate_system = None,
                   a_is_origin = False, a_zero_index = zero_index\<rparr>]\<rparr>))"

lemma length_parent_addr_of:
  assumes "parent_addr_of addr = Some p"
  shows "length p < length addr"
proof -
  from assms have d: "CHR ''-'' \<in> set addr"
    and p: "p = join_chr CHR ''-'' (butlast (split_chr CHR ''-'' addr))"
    by (auto simp: parent_addr_of_def split: if_splits)
  have n: "split_chr CHR ''-'' addr \<noteq> []" by (rule split_chr_nonempty)
  have "join_chr CHR ''-'' (butlast (split_chr CHR ''-'' addr) @ [last (split_chr CHR ''-'' addr)]) = addr"
    using n by (simp add: join_split_chr)
  moreover have "butlast (split_chr CHR ''-'' addr) \<noteq> []"
    using split_chr_length [OF d] by (cases "split_chr CHR ''-'' addr" rule: rev_cases) auto
  ultimately have "addr = p @ CHR ''-'' # last (split_chr CHR ''-'' addr)"
    using p by (simp add: join_chr_snoc)
  then have "length addr = length p + 1 + length (last (split_chr CHR ''-'' addr))"
    by (metis One_nat_def add.assoc length_Cons length_append plus_1_eq_Suc)
  then show ?thesis by simp
qed

text \<open>
  \<open>create_address\<close>: an existing address is updated; a new one is inserted after its
  parent, which is created first (with no identifier and the same type) when it is a
  non-empty string that is not registered yet.
\<close>

function create_address ::
  "db \<Rightarrow> string \<Rightarrow> string option \<Rightarrow> string option \<Rightarrow> int \<Rightarrow> (error + string) \<times> db" where
  "create_address st addr uuid_value addr_type zero_index =
     (if addr \<in> set (map a_addr (address_book st))
      then (Inr addr, update_address st addr uuid_value addr_type zero_index)
      else (case parent_addr_of addr of
              None \<Rightarrow> insert_address st addr uuid_value addr_type None zero_index
            | Some p \<Rightarrow>
                if p \<noteq> [] \<and> p \<notin> set (map a_addr (address_book st))
                then (case create_address st p None addr_type 0 of
                        (Inl e, st1) \<Rightarrow> (Inl e, st1)
                      | (Inr created, st1) \<Rightarrow>
                          insert_address st1 addr uuid_value addr_type (Some p) zero_index)
                else insert_address st addr uuid_value addr_type (Some p) zero_index))"
  by pat_completeness auto
termination
  by (relation "measure (\<lambda>(st, addr, uuid_value, addr_type, zero_index). length addr)")
     (auto simp: length_parent_addr_of)

declare create_address.simps [simp del]

section \<open>DocumentManager\<close>

subsection \<open>Segmentation\<close>

definition is_upper :: "char \<Rightarrow> bool" where
  "is_upper c = (let n = (of_char c :: nat) in 65 \<le> n \<and> n \<le> 90)"

definition is_lower :: "char \<Rightarrow> bool" where
  "is_lower c = (let n = (of_char c :: nat) in 97 \<le> n \<and> n \<le> 122)"

definition is_word :: "char \<Rightarrow> bool" where
  "is_word c = (is_upper c \<or> is_lower c \<or> is_digit c \<or> c = CHR ''_'')"

definition py_lower :: "string \<Rightarrow> string" where
  "py_lower s = map (\<lambda>c. if is_upper c then char_of (of_char c + (32::nat)) else c) s"

text \<open>
  The three look-behinds of the pattern of \<open>_split_into_sentences\<close>, read on the text
  before the whitespace character, nearest character first: the character before is
  one of \<open>.\<close>, \<open>?\<close>, \<open>!\<close>; the four characters before are not \<open>\w\.\w.\<close>; the three
  characters before are not \<open>[A-Z][a-z]\.\<close>.
\<close>

fun lookbehind_initials :: "string \<Rightarrow> bool" where
  "lookbehind_initials (b1 # b2 # b3 # b4 # bs) =
     (is_word b4 \<and> b3 = CHR ''.'' \<and> is_word b2 \<and> b1 \<noteq> CHR 0x0A)"
| "lookbehind_initials bs = False"

fun lookbehind_title :: "string \<Rightarrow> bool" where
  "lookbehind_title (b1 # b2 # b3 # bs) = (is_upper b3 \<and> is_lower b2 \<and> b1 = CHR ''.'')"
| "lookbehind_title bs = False"

fun lookbehind_stop :: "string \<Rightarrow> bool" where
  "lookbehind_stop (b1 # bs) = (b1 = CHR ''.'' \<or> b1 = CHR ''?'' \<or> b1 = CHR ''!'')"
| "lookbehind_stop [] = False"

definition sentence_break :: "string \<Rightarrow> char \<Rightarrow> bool" where
  "sentence_break seen c =
     (\<not> lookbehind_initials seen \<and> \<not> lookbehind_title seen \<and> lookbehind_stop seen
      \<and> is_space c)"

text \<open>\<open>re.split\<close>: \<open>seen\<close> is the text read so far and \<open>cur\<close> the piece being read, both
  reversed.\<close>

fun re_split :: "string \<Rightarrow> string \<Rightarrow> string \<Rightarrow> string list" where
  "re_split seen cur [] = [rev cur]"
| "re_split seen cur (c # cs) =
     (if sentence_break seen c then rev cur # re_split (c # seen) [] cs
      else re_split (c # seen) (c # cur) cs)"

definition split_into_sentences :: "string \<Rightarrow> string list" where
  "split_into_sentences text =
     map py_strip (filter (\<lambda>s. py_strip s \<noteq> []) (re_split [] [] text))"

text \<open>\<open>re.findall(r'\b\w+\b', sentence.lower())\<close>: the maximal runs of word characters.\<close>

fun word_runs :: "string \<Rightarrow> string \<Rightarrow> string list" where
  "word_runs cur [] = (if cur = [] then [] else [rev cur])"
| "word_runs cur (c # cs) =
     (if is_word c then word_runs (c # cur) cs
      else if cur = [] then word_runs [] cs
      else rev cur # word_runs [] cs)"

definition tokenize_sentence :: "string \<Rightarrow> string list" where
  "tokenize_sentence sentence = word_runs [] (py_lower sentence)"

subsection \<open>Sentences\<close>

text \<open>
  \<open>_get_or_create_sentence\<close>: the sentence of the same hash if there is one; otherwise a
  row with a new random identifier, then the HDF5 entry. The insert fails when the
  identifier, the text or the hash is in the table already (all three are unique).
\<close>

definition get_or_create_sentence :: "env \<Rightarrow> db \<Rightarrow> string \<Rightarrow> (error + string \<times> bool) \<times> db" where
  "get_or_create_sentence E st sentence_text =
     (let sentence_hash = sha256_hex E sentence_text in
      case find (\<lambda>r. s_hash r = sentence_hash) (sentences st) of
        Some result \<Rightarrow> (Inr (s_uuid result, False), st)
      | None \<Rightarrow>
          (let sentence_uuid = uuid4_str E (drawn st);
               st1 = st\<lparr>drawn := Suc (drawn st)\<rparr> in
           if sentence_uuid \<in> set (map s_uuid (sentences st1))
              \<or> sentence_text \<in> set (map s_text (sentences st1))
              \<or> sentence_hash \<in> set (map s_hash (sentences st1))
           then (Inl IntegrityError, st1)
           else
             (let st2 = st1\<lparr>sentences := sentences st1 @
                          [\<lparr>s_uuid = sentence_uuid, s_text = sentence_text,
                            s_hash = sentence_hash\<rparr>]\<rparr>;
                  st3 = (if h5_sentences st2 sentence_uuid = None
                         then st2\<lparr>h5_sentences := (h5_sentences st2)
                                  (sentence_uuid \<mapsto> \<lparr>hs_hash = sentence_hash,
                                                      hs_text = sentence_text\<rparr>)\<rparr>
                         else st2)
              in (Inr (sentence_uuid, True), st3))))"

text \<open>\<open>_map_sentence_to_document\<close>: \<open>INSERT OR IGNORE\<close>, the triple being unique.\<close>

definition map_sentence_to_document :: "db \<Rightarrow> string \<Rightarrow> string \<Rightarrow> int \<Rightarrow> db" where
  "map_sentence_to_document st sentence_uuid doc_uuid position =
     (let row = \<lparr>m_doc_uuid = doc_uuid, m_sentence_uuid = sentence_uuid, m_position = position\<rparr> in
      if row \<in> set (doc_sentence_map st) then st
      else st\<lparr>doc_sentence_map := doc_sentence_map st @ [row]\<rparr>)"

subsection \<open>Tokens\<close>

text \<open>\<open>_get_or_create_token\<close>: the token of the same hash, or a new row whose number is
  one more than the largest number in the table.\<close>

definition get_or_create_token :: "env \<Rightarrow> db \<Rightarrow> string \<Rightarrow> nat \<times> db" where
  "get_or_create_token E st token_text =
     (let token_hash = sha256_hex E token_text in
      case find (\<lambda>r. t_hash r = token_hash) (tokens st) of
        Some result \<Rightarrow> (t_id result, st)
      | None \<Rightarrow>
          (let new_id = Suc (fold max (map t_id (tokens st)) 0) in
           (new_id, st\<lparr>tokens := tokens st @
                      [\<lparr>t_id = new_id, t_text = token_text, t_hash = token_hash\<rparr>]\<rparr>)))"

text \<open>\<open>_map_token_to_sentence\<close>: \<open>INSERT OR IGNORE\<close>, sentence and position being unique.\<close>

definition map_token_to_sentence :: "db \<Rightarrow> nat \<Rightarrow> string \<Rightarrow> int \<Rightarrow> db" where
  "map_token_to_sentence st token_id sentence_uuid position =
     (if (sentence_uuid, position) \<in> set (map (\<lambda>r. (tm_sentence_uuid r, tm_position r))
                                             (sentence_token_map st))
      then st
      else st\<lparr>sentence_token_map := sentence_token_map st @
                [\<lparr>tm_sentence_uuid = sentence_uuid, tm_token_id = token_id,
                  tm_position = position\<rparr>]\<rparr>)"

record token_info =
  ti_id :: nat
  ti_text :: string
  ti_position :: int
  ti_address :: string

text \<open>The body of the loop of \<open>_process_sentence_tokens\<close> for one token.\<close>

definition process_token ::
  "env \<Rightarrow> db \<Rightarrow> string \<Rightarrow> int \<Rightarrow> string \<Rightarrow> (error + token_info) \<times> db" where
  "process_token E st sentence_uuid position token_text =
     (case get_or_create_token E st token_text of (token_id, st1) \<Rightarrow>
        (let st2 = map_token_to_sentence st1 token_id sentence_uuid position;
             token_addr = get_token_addr sentence_uuid position in
         case create_address st2 (sentence_uuid @ CHR ''.'' # py_str position)
                (Some token_addr) (Some ''token'') position of
           (Inl e, st3) \<Rightarrow> (Inl e, st3)
         | (Inr created, st3) \<Rightarrow>
             (Inr \<lparr>ti_id = token_id, ti_text = token_text, ti_position = position,
                   ti_address = token_addr\<rparr>,
              if h5_tokens st3 token_addr = None
              then st3\<lparr>h5_tokens := (h5_tokens st3)
                        (token_addr \<mapsto> \<lparr>ht_sentence_uuid = sentence_uuid,
                                         ht_position = position, ht_text = token_text\<rparr>)\<rparr>
              else st3)))"

text \<open>The loop over \<open>enumerate(tokens)\<close>, \<open>position\<close> being the counter.\<close>

fun process_tokens ::
  "env \<Rightarrow> db \<Rightarrow> string \<Rightarrow> int \<Rightarrow> string list \<Rightarrow> (error + token_info list) \<times> db" where
  "process_tokens E st sentence_uuid position [] = (Inr [], st)"
| "process_tokens E st sentence_uuid position (token_text # rest) =
     (case process_token E st sentence_uuid position token_text of
        (Inl e, st1) \<Rightarrow> (Inl e, st1)
      | (Inr info, st1) \<Rightarrow>
          (case process_tokens E st1 sentence_uuid (position + 1) rest of
             (Inl e, st2) \<Rightarrow> (Inl e, st2)
           | (Inr infos, st2) \<Rightarrow> (Inr (info # infos), st2)))"

definition process_sentence_tokens ::
  "env \<Rightarrow> db \<Rightarrow> string \<Rightarrow> string \<Rightarrow> (error + token_info list) \<times> db" where
  "process_sentence_tokens E st sentence_text sentence_uuid =
     process_tokens E st sentence_uuid 0 (tokenize_sentence sentence_text)"

subsection \<open>Documents\<close>

record processed_sentence =
  ps_uuid :: string
  ps_text :: string
  ps_position :: int
  ps_address :: string
  ps_is_new :: bool
  ps_tokens :: "token_info list"

record doc_info =
  di_uuid :: string
  di_dbidL :: string
  di_dbidS :: string
  di_title :: "string option"
  di_source :: "string option"
  di_sentence_count :: nat
  di_sentences :: "processed_sentence list"

text \<open>The body of the loop of \<open>process_document\<close> for one sentence.\<close>

definition process_sentence ::
  "env \<Rightarrow> db \<Rightarrow> string \<Rightarrow> int \<Rightarrow> string \<Rightarrow> (error + processed_sentence) \<times> db" where
  "process_sentence E st doc_uuid position sentence_text =
     (case get_or_create_sentence E st sentence_text of
        (Inl e, st1) \<Rightarrow> (Inl e, st1)
      | (Inr (sentence_uuid, is_new), st1) \<Rightarrow>
          (let st2 = map_sentence_to_document st1 sentence_uuid doc_uuid position;
               addr = ''doc:'' @ doc_uuid @ CHR ''-'' # py_str position in
           case create_address st2 addr (Some sentence_uuid) (Some ''sentence'') 0 of
             (Inl e, st3) \<Rightarrow> (Inl e, st3)
           | (Inr created, st3) \<Rightarrow>
               (case (if is_new then process_sentence_tokens E st3 sentence_text sentence_uuid
                      else (Inr [], st3)) of
                  (Inl e, st4) \<Rightarrow> (Inl e, st4)
                | (Inr toks, st4) \<Rightarrow>
                    (Inr \<lparr>ps_uuid = sentence_uuid, ps_text = sentence_text,
                          ps_position = position, ps_address = addr, ps_is_new = is_new,
                          ps_tokens = toks\<rparr>, st4))))"

text \<open>The loop over \<open>enumerate(sentences)\<close>.\<close>

fun process_sentences ::
  "env \<Rightarrow> db \<Rightarrow> string \<Rightarrow> int \<Rightarrow> string list \<Rightarrow> (error + processed_sentence list) \<times> db" where
  "process_sentences E st doc_uuid position [] = (Inr [], st)"
| "process_sentences E st doc_uuid position (sentence_text # rest) =
     (case process_sentence E st doc_uuid position sentence_text of
        (Inl e, st1) \<Rightarrow> (Inl e, st1)
      | (Inr p, st1) \<Rightarrow>
          (case process_sentences E st1 doc_uuid (position + 1) rest of
             (Inl e, st2) \<Rightarrow> (Inl e, st2)
           | (Inr ps, st2) \<Rightarrow> (Inr (p # ps), st2)))"

text \<open>\<open>INSERT INTO documents\<close>: \<open>uuid\<close> is the primary key and \<open>(dbidL, dbidS)\<close> is unique.\<close>

definition insert_document :: "db \<Rightarrow> doc_row \<Rightarrow> (error + unit) \<times> db" where
  "insert_document st row =
     (if d_uuid row \<in> set (map d_uuid (documents st))
         \<or> (d_dbidL row, d_dbidS row) \<in> set (map (\<lambda>r. (d_dbidL r, d_dbidS r)) (documents st))
      then (Inl IntegrityError, st)
      else (Inr (), st\<lparr>documents := documents st @ [row]\<rparr>))"

definition or_empty :: "string option \<Rightarrow> string" where
  "or_empty s = (case s of None \<Rightarrow> [] | Some t \<Rightarrow> t)"

text \<open>The HDF5 group of the document, written when there is none of that name.\<close>

definition store_document_h5 ::
  "db \<Rightarrow> string \<Rightarrow> string \<Rightarrow> string \<Rightarrow> string option \<Rightarrow> string option \<Rightarrow> string
   \<Rightarrow> processed_sentence list \<Rightarrow> db" where
  "store_document_h5 st doc_uuid dbidL dbidS title source content processed =
     (if h5_documents st doc_uuid = None
      then st\<lparr>h5_documents := (h5_documents st)
                (doc_uuid \<mapsto> \<lparr>hd_dbidL = dbidL, hd_dbidS = dbidS, hd_title = or_empty title,
                               hd_source = or_empty source, hd_content = content,
                               hd_sentences = map (\<lambda>p. (py_str (ps_position p), ps_uuid p))
                                                  processed\<rparr>)\<rparr>
      else st)"

text \<open>
  \<open>process_document\<close>. \<open>metadata\<close> is the JSON text of the dictionary, \<open>None\<close> for an absent or
  empty one. The document row is committed before the content is segmented.
\<close>

definition process_document ::
  "env \<Rightarrow> db \<Rightarrow> string \<Rightarrow> string \<Rightarrow> string option \<Rightarrow> string option \<Rightarrow> string option
   \<Rightarrow> string option \<Rightarrow> (error + doc_info) \<times> db" where
  "process_document E st content dbidL dbidS title source metadata =
     (let doc_uuid = uuid4_str E (drawn st);
          st0 = st\<lparr>drawn := Suc (drawn st)\<rparr>;
          dbidS' = (case dbidS of
                      None \<Rightarrow> take 8 doc_uuid
                    | Some s \<Rightarrow> if s = [] then take 8 doc_uuid else s) in
      case insert_document st0 \<lparr>d_uuid = doc_uuid, d_dbidL = dbidL, d_dbidS = dbidS',
                                d_title = title, d_source = source, d_metadata = metadata\<rparr> of
        (Inl e, st1) \<Rightarrow> (Inl e, st1)
      | (Inr u, st1) \<Rightarrow>
          (case process_sentences E st1 doc_uuid 0 (split_into_sentences content) of
             (Inl e, st2) \<Rightarrow> (Inl e, st2)
           | (Inr processed, st2) \<Rightarrow>
               (Inr \<lparr>di_uuid = doc_uuid, di_dbidL = dbidL, di_dbidS = dbidS', di_title = title,
                     di_source = source, di_sentence_count = length processed,
                     di_sentences = processed\<rparr>,
                store_document_h5 st2 doc_uuid dbidL dbidS' title source content processed)))"

section \<open>ZeroIndexMapper: addresses and identifiers\<close>

text \<open>
  Positions are unbounded integers, as in Python. SQLite's \<open>INTEGER\<close> holds 64 bits, and
  binding a larger parameter to a query raises \<open>OverflowError\<close>: positions beyond that
  range are outside the model.
\<close>

text \<open>Python's truth value of an optional string: \<open>None\<close> and the empty string are false.\<close>

definition truthy :: "string option \<Rightarrow> bool" where
  "truthy s = (case s of None \<Rightarrow> False | Some t \<Rightarrow> t \<noteq> [])"

text \<open>
  \<open>map_addr_to_uuid\<close>: the address is split on dashes; the first part, without a prefix
  up to a colon, names the document, the second part is the position. The query joins
  \<open>doc_sentence_map\<close> with \<open>sentences\<close>; its first row is taken in the order of the map
  table. \<open>int\<close> raises \<open>ValueError\<close> on a second part that is not an integer.
\<close>

definition map_addr_to_uuid :: "db \<Rightarrow> string \<Rightarrow> error + string option" where
  "map_addr_to_uuid st address =
     (case split_chr CHR ''-'' address of
        p0 # p1 # rest \<Rightarrow>
          (let doc_id = (if CHR '':'' \<in> set p0
                         then (case split_chr CHR '':'' p0 of a # b # others \<Rightarrow> b | _ \<Rightarrow> p0)
                         else p0) in
           case py_int p1 of
             None \<Rightarrow> Inl (ValueError ''invalid literal for int() with base 10'')
           | Some position \<Rightarrow>
               Inr (case [s_uuid s. m \<leftarrow> doc_sentence_map st,
                            m_doc_uuid m = doc_id \<and> m_position m = position,
                            s \<leftarrow> sentences st, s_uuid s = m_sentence_uuid m] of
                      [] \<Rightarrow> None
                    | u # us \<Rightarrow> Some u))
      | _ \<Rightarrow> Inr None)"

definition occurrence_addr :: "dsm_row \<Rightarrow> string" where
  "occurrence_addr m = ''doc:'' @ m_doc_uuid m @ CHR ''-'' # py_str (m_position m)"

text \<open>\<open>map_uuid_to_addr\<close>: the occurrences of a sentence, ordered by position within the
  given document, or by document and position.\<close>

definition map_uuid_to_addr :: "db \<Rightarrow> string \<Rightarrow> string option \<Rightarrow> string list" where
  "map_uuid_to_addr st uuid doc_id =
     (if truthy doc_id
      then map occurrence_addr
             (sort_key m_position
                [m \<leftarrow> doc_sentence_map st. m_sentence_uuid m = uuid \<and> Some (m_doc_uuid m) = doc_id])
      else map occurrence_addr
             (sort_key (\<lambda>m. (m_doc_uuid m, m_position m))
                [m \<leftarrow> doc_sentence_map st. m_sentence_uuid m = uuid]))"





section \<open>AddressManager: reading addresses, relations\<close>














section \<open>FunctionService: formulas\<close>

subsection \<open>Values\<close>

text \<open>
  The values of the formula language: strings, integers, floats, booleans, \<open>None\<close> and the
  lists of strings that \<open>rel.all\<close> and \<open>addr\<close> return. A float is kept as the literal it was
  read from; its truth value and the text SQLite compares it as are given by the
  environment.
\<close>

datatype val = VStr string | VInt int | VFloat string | VBool bool | VNone | VStrs "string list"

definition val_truth :: "env \<Rightarrow> val \<Rightarrow> bool" where
  "val_truth E v =
     (case v of
        VStr s \<Rightarrow> s \<noteq> []
      | VInt i \<Rightarrow> i \<noteq> 0
      | VFloat lit \<Rightarrow> float_truth E lit
      | VBool b \<Rightarrow> b
      | VNone \<Rightarrow> False
      | VStrs xs \<Rightarrow> xs \<noteq> [])"

text \<open>
  A value bound to a parameter that is compared with a \<open>TEXT\<close> column: the text it is
  compared as, \<open>None\<close> for \<open>NULL\<close>, which equals nothing. A list cannot be bound.
\<close>

definition sql_text :: "env \<Rightarrow> val \<Rightarrow> error + string option" where
  "sql_text E v =
     (case v of
        VStr s \<Rightarrow> Inr (Some s)
      | VInt i \<Rightarrow> Inr (Some (py_str i))
      | VFloat lit \<Rightarrow> Inr (Some (float_sql_text E lit))
      | VBool b \<Rightarrow> Inr (Some (if b then ''1'' else ''0''))
      | VNone \<Rightarrow> Inr None
      | VStrs xs \<Rightarrow> Inl ProgrammingError)"

subsection \<open>Parsing\<close>

text \<open>The function name \<open>\w+(?:\.\w+)*\<close>: non-empty words joined by dots.\<close>

definition valid_name :: "string \<Rightarrow> bool" where
  "valid_name n = list_all (\<lambda>p. p \<noteq> [] \<and> list_all is_word p) (split_chr CHR ''.'' n)"

text \<open>
  The match of \<open>^(\w+(?:\.\w+)*)\((.*)\)$\<close>: the name is the text before the first opening
  parenthesis; the arguments are the text between it and a closing parenthesis at the
  end, or before one newline at the end, and contain no newline.
\<close>

definition match_formula :: "string \<Rightarrow> (string \<times> string) option" where
  "match_formula f =
     (let name = takeWhile (\<lambda>c. c \<noteq> CHR ''('') f;
          rest = dropWhile (\<lambda>c. c \<noteq> CHR ''('') f in
      if \<not> valid_name name then None
      else (case rest of
              [] \<Rightarrow> None
            | paren # r \<Rightarrow>
                (let body = (if r \<noteq> [] \<and> last r = CHR 0x0A then butlast r else r) in
                 if body \<noteq> [] \<and> last body = CHR '')'' \<and> CHR 0x0A \<notin> set (butlast body)
                 then Some (name, butlast body)
                 else None)))"

text \<open>The loop over the characters of the arguments: quotes toggle \<open>in_quotes\<close>,
  parentheses outside quotes move \<open>bracket_level\<close>, and a comma outside quotes at level 0
  ends an argument.\<close>

fun split_args :: "string list \<Rightarrow> string \<Rightarrow> bool \<Rightarrow> int \<Rightarrow> string \<Rightarrow> string list" where
  "split_args args current_arg in_quotes bracket_level [] =
     (if current_arg \<noteq> [] then args @ [py_strip current_arg] else args)"
| "split_args args current_arg in_quotes bracket_level (c # cs) =
     (if c = CHR 0x22 \<and> \<not> in_quotes
        then split_args args (current_arg @ [c]) True bracket_level cs
      else if c = CHR 0x22 \<and> in_quotes
        then split_args args (current_arg @ [c]) False bracket_level cs
      else if c = CHR ''('' \<and> \<not> in_quotes
        then split_args args (current_arg @ [c]) in_quotes (bracket_level + 1) cs
      else if c = CHR '')'' \<and> \<not> in_quotes
        then split_args args (current_arg @ [c]) in_quotes (bracket_level - 1) cs
      else if c = CHR '','' \<and> \<not> in_quotes \<and> bracket_level = 0
        then split_args (args @ [py_strip current_arg]) [] in_quotes bracket_level cs
      else split_args args (current_arg @ [c]) in_quotes bracket_level cs)"

text \<open>The characters that the loop only appends, whatever its state.\<close>

definition plain_char :: "char \<Rightarrow> bool" where
  "plain_char c = (c \<noteq> CHR 0x22 \<and> c \<noteq> CHR ''('' \<and> c \<noteq> CHR '')'' \<and> c \<noteq> CHR '','')"

definition parse_formula :: "string \<Rightarrow> error + string \<times> string list" where
  "parse_formula formula =
     (let f = (case formula of
                 [] \<Rightarrow> formula
               | c # cs \<Rightarrow> if c = CHR ''='' then py_strip cs else formula) in
      case match_formula f of
        None \<Rightarrow> Inl (ValueError (''Invalid formula format: '' @ f))
      | Some (func_name, args_str) \<Rightarrow> Inr (func_name, split_args [] [] False 0 args_str))"

subsection \<open>Arguments\<close>

definition is_alpha :: "char \<Rightarrow> bool" where
  "is_alpha c = (is_upper c \<or> is_lower c)"

definition all_digits :: "string \<Rightarrow> bool" where
  "all_digits s = (s \<noteq> [] \<and> list_all is_digit s)"

text \<open>\<open>^([A-Za-z]+)([0-9]+)$\<close> on a stripped argument: the letters and the digits.\<close>

definition match_cell_ref :: "string \<Rightarrow> (string \<times> string) option" where
  "match_cell_ref s =
     (let col_str = takeWhile is_alpha s; row_str = dropWhile is_alpha s in
      if col_str \<noteq> [] \<and> all_digits row_str then Some (col_str, row_str) else None)"

text \<open>
  \<open>_cell_to_addr\<close>: the column is computed and not used; the row gives the position in the
  document \<open>current_document\<close>.
\<close>

definition cell_to_addr :: "string \<Rightarrow> (int \<times> int) option \<Rightarrow> error + string" where
  "cell_to_addr cell_ref context_cell =
     (case match_cell_ref cell_ref of
        None \<Rightarrow> Inl (ValueError (''Invalid cell reference: '' @ cell_ref))
      | Some (col_str, row_str) \<Rightarrow>
          (case py_int row_str of
             None \<Rightarrow> Inl (ValueError ''invalid literal for int() with base 10'')
           | Some row \<Rightarrow> Inr (''doc:current_document-'' @ py_str (row - 1))))"

text \<open>\<open>^doc:[^-]+-\d+$\<close>.\<close>

definition is_direct_addr :: "string \<Rightarrow> bool" where
  "is_direct_addr s =
     (startswith s ''doc:'' \<and>
      (case split_chr CHR ''-'' (drop 4 s) of
         [doc, pos] \<Rightarrow> doc \<noteq> [] \<and> all_digits pos
       | _ \<Rightarrow> False))"

text \<open>\<open>^-?\d+(\.\d+)?$\<close>.\<close>

definition is_number :: "string \<Rightarrow> bool" where
  "is_number s =
     (case split_chr CHR ''.'' (case s of [] \<Rightarrow> s | c # cs \<Rightarrow> if c = CHR ''-'' then cs else s) of
        [whole] \<Rightarrow> all_digits whole
      | [whole, frac] \<Rightarrow> all_digits whole \<and> all_digits frac
      | _ \<Rightarrow> False)"

text \<open>
  One argument of \<open>_resolve_args\<close>, the tests in the order of the source; \<open>Nested\<close> asks for
  the evaluation of the argument as a formula.
\<close>

datatype arg_class = Done "error + val" | Nested

definition classify_arg :: "string \<Rightarrow> (int \<times> int) option \<Rightarrow> arg_class" where
  "classify_arg arg context_cell =
     (if arg \<noteq> [] \<and> hd arg = CHR 0x22 \<and> last arg = CHR 0x22 then Done (Inr (VStr (butlast (tl arg))))
      else if match_cell_ref arg \<noteq> None then Done (map_sum id VStr (cell_to_addr arg context_cell))
      else if is_direct_addr arg then Done (Inr (VStr arg))
      else if is_number arg then
        (if CHR ''.'' \<in> set arg then Done (Inr (VFloat arg))
         else (case py_int arg of
                 None \<Rightarrow> Done (Inl (ValueError ''invalid literal for int() with base 10''))
               | Some i \<Rightarrow> Done (Inr (VInt i))))
      else if py_lower arg = ''true'' then Done (Inr (VBool True))
      else if py_lower arg = ''false'' then Done (Inr (VBool False))
      else if CHR ''('' \<in> set arg \<and> CHR '')'' \<in> set arg then Nested
      else Done (Inr (VStr arg)))"

subsection \<open>The registered functions\<close>

text \<open>An address argument is split as a string; any other value has no \<open>split\<close>.\<close>

definition addr_to_uuid :: "db \<Rightarrow> val \<Rightarrow> error + string option" where
  "addr_to_uuid st v = (case v of VStr address \<Rightarrow> map_addr_to_uuid st address | _ \<Rightarrow> Inl AttributeError)"

text \<open>The sentences related to \<open>source_uuid\<close> by \<open>rel_type\<close>: the join of \<open>sentences\<close> and
  \<open>relations\<close> on the target, in the order of the relations.\<close>

definition related_texts :: "rel_row list \<Rightarrow> db \<Rightarrow> string \<Rightarrow> string option \<Rightarrow> string list" where
  "related_texts rels st source_uuid rel_type =
     [s_text t. r \<leftarrow> rels, r_source_uuid r = source_uuid \<and> Some (r_relation_type r) = rel_type,
                t \<leftarrow> sentences st, s_uuid t = r_target_uuid r]"

definition rel_function :: "env \<Rightarrow> db \<Rightarrow> val \<Rightarrow> val \<Rightarrow> error + val" where
  "rel_function E st source_addr rel_type =
     (case addr_to_uuid st source_addr of
        Inl e \<Rightarrow> Inl e
      | Inr source_uuid \<Rightarrow>
          if \<not> truthy source_uuid then Inr VNone
          else (case relations st of
                  None \<Rightarrow> Inl OperationalError
                | Some rels \<Rightarrow>
                    (case sql_text E rel_type of
                       Inl e \<Rightarrow> Inl e
                     | Inr ty \<Rightarrow>
                         (case related_texts rels st (the source_uuid) ty of
                            [] \<Rightarrow> Inr VNone
                          | text # texts \<Rightarrow> Inr (VStr text)))))"

definition rel_all_function :: "env \<Rightarrow> db \<Rightarrow> val \<Rightarrow> val \<Rightarrow> error + val" where
  "rel_all_function E st source_addr rel_type =
     (case addr_to_uuid st source_addr of
        Inl e \<Rightarrow> Inl e
      | Inr source_uuid \<Rightarrow>
          if \<not> truthy source_uuid then Inr (VStrs [])
          else (case relations st of
                  None \<Rightarrow> Inl OperationalError
                | Some rels \<Rightarrow>
                    (case sql_text E rel_type of
                       Inl e \<Rightarrow> Inl e
                     | Inr ty \<Rightarrow> Inr (VStrs (related_texts rels st (the source_uuid) ty)))))"

text \<open>\<open>_rel_count_function\<close>: the rows of \<open>relations\<close> are counted, of one type when
  \<open>rel_type\<close> is true, of every type otherwise.\<close>

definition rel_count_function :: "env \<Rightarrow> db \<Rightarrow> val \<Rightarrow> val \<Rightarrow> error + val" where
  "rel_count_function E st source_addr rel_type =
     (case addr_to_uuid st source_addr of
        Inl e \<Rightarrow> Inl e
      | Inr source_uuid \<Rightarrow>
          if \<not> truthy source_uuid then Inr (VInt 0)
          else (case relations st of
                  None \<Rightarrow> Inl OperationalError
                | Some rels \<Rightarrow>
                    if val_truth E rel_type then
                      (case sql_text E rel_type of
                         Inl e \<Rightarrow> Inl e
                       | Inr ty \<Rightarrow>
                           Inr (VInt (int (length
                             [r \<leftarrow> rels. r_source_uuid r = the source_uuid
                                          \<and> Some (r_relation_type r) = ty]))))
                    else Inr (VInt (int (length
                           [r \<leftarrow> rels. r_source_uuid r = the source_uuid])))))"

definition addr_function :: "env \<Rightarrow> db \<Rightarrow> val \<Rightarrow> error + val" where
  "addr_function E st uuid_value =
     (case sql_text E uuid_value of
        Inl e \<Rightarrow> Inl e
      | Inr None \<Rightarrow> Inr (VStrs [])
      | Inr (Some u) \<Rightarrow> Inr (VStrs (map_uuid_to_addr st u None)))"

definition uuid_function :: "db \<Rightarrow> val \<Rightarrow> error + val" where
  "uuid_function st addr =
     (case addr_to_uuid st addr of
        Inl e \<Rightarrow> Inl e
      | Inr None \<Rightarrow> Inr VNone
      | Inr (Some u) \<Rightarrow> Inr (VStr u))"

definition function_registry :: "string list" where
  "function_registry = [''rel'', ''rel.all'', ''rel.count'', ''addr'', ''uuid'']"

text \<open>The call \<open>function_registry[func_name](*resolved_args)\<close>; a wrong number of arguments
  is a \<open>TypeError\<close>.\<close>

definition call_function :: "env \<Rightarrow> db \<Rightarrow> string \<Rightarrow> val list \<Rightarrow> error + val" where
  "call_function E st func_name resolved_args =
     (if func_name = ''rel'' then
        (case resolved_args of [a, t] \<Rightarrow> rel_function E st a t | _ \<Rightarrow> Inl TypeError)
      else if func_name = ''rel.all'' then
        (case resolved_args of [a, t] \<Rightarrow> rel_all_function E st a t | _ \<Rightarrow> Inl TypeError)
      else if func_name = ''rel.count'' then
        (case resolved_args of
           [a] \<Rightarrow> rel_count_function E st a VNone
         | [a, t] \<Rightarrow> rel_count_function E st a t
         | _ \<Rightarrow> Inl TypeError)
      else if func_name = ''addr'' then
        (case resolved_args of [u] \<Rightarrow> addr_function E st u | _ \<Rightarrow> Inl TypeError)
      else
        (case resolved_args of [a] \<Rightarrow> uuid_function st a | _ \<Rightarrow> Inl TypeError))"

text \<open>The arguments are resolved from left to right; the first exception ends the loop.\<close>

fun first_error :: "(error + 'a) list \<Rightarrow> error + 'a list" where
  "first_error [] = Inr []"
| "first_error (Inl e # rs) = Inl e"
| "first_error (Inr v # rs) = (case first_error rs of Inl e \<Rightarrow> Inl e | Inr vs \<Rightarrow> Inr (v # vs))"

lemma length_py_strip: "length (py_strip s) \<le> length s"
proof -
  have "length (py_strip s) \<le> length (dropWhile is_space s)"
    unfolding py_strip_def using length_dropWhile_le [of is_space "rev (dropWhile is_space s)"]
    by simp
  also have "\<dots> \<le> length s" by (rule length_dropWhile_le)
  finally show ?thesis .
qed

lemma split_args_length:
  "a \<in> set (split_args args cur q lvl s) \<Longrightarrow> a \<in> set args \<or> length a \<le> length cur + length s"
proof (induction s arbitrary: args cur q lvl)
  case Nil
  then show ?case
    using length_py_strip [of cur] by (auto split: if_splits)
next
  case (Cons c cs)
  have step: "a \<in> set args \<or> length a \<le> length cur + length (c # cs)"
    if "a \<in> set (split_args args (cur @ [c]) q' lvl' cs)" for q' lvl'
    using Cons.IH [OF that] by auto
  have comma: "a \<in> set args \<or> length a \<le> length cur + length (c # cs)"
    if "a \<in> set (split_args (args @ [py_strip cur]) [] q lvl cs)"
    using Cons.IH [OF that] length_py_strip [of cur] by auto
  from Cons.prems
  have "(\<exists>q' lvl'. a \<in> set (split_args args (cur @ [c]) q' lvl' cs))
        \<or> a \<in> set (split_args (args @ [py_strip cur]) [] q lvl cs)"
    by (simp split: if_splits) blast+
  then show ?case using step comma by blast
qed

lemma match_formula_length:
  assumes "match_formula f = Some (name, args_str)"
  shows "length args_str < length f"
proof -
  from assms obtain paren r where
    rest: "dropWhile (\<lambda>c. c \<noteq> CHR ''('') f = paren # r"
    by (auto simp: match_formula_def Let_def split: if_splits list.splits)
  define body where "body = (if r \<noteq> [] \<and> last r = CHR 0x0A then butlast r else r)"
  from assms rest have b: "body \<noteq> []" and a: "args_str = butlast body"
    by (auto simp: match_formula_def Let_def body_def split: if_splits)
  have "length body \<le> length r" by (simp add: body_def)
  moreover have "length (paren # r) \<le> length f"
    using length_dropWhile_le [of "\<lambda>c. c \<noteq> CHR ''(''" f] rest by simp
  ultimately show ?thesis using a b by (cases body rule: rev_cases) auto
qed

lemma parse_formula_length:
  assumes "parse_formula formula = Inr (func_name, args)" and "arg \<in> set args"
  shows "length arg < length formula"
proof -
  define f where "f = (case formula of [] \<Rightarrow> formula
      | c # cs \<Rightarrow> if c = CHR ''='' then py_strip cs else formula)"
  have lf: "length f \<le> length formula"
    using length_py_strip by (auto simp: f_def split: list.splits intro: le_SucI)
  from assms(1) obtain args_str where
    m: "match_formula f = Some (func_name, args_str)"
    and a: "args = split_args [] [] False 0 args_str"
    by (auto simp: parse_formula_def f_def [symmetric] Let_def split: option.splits)
  from split_args_length [of arg "[]" "[]" False 0 args_str] assms(2) a
  have "length arg \<le> length args_str" by simp
  with match_formula_length [OF m] lf show ?thesis by simp
qed

text \<open>
  \<open>evaluate\<close>: the formula is parsed, the name is looked up in the registry, the
  arguments are resolved, a nested call by \<open>evaluate\<close> itself, and the function is called.
\<close>

function evaluate :: "env \<Rightarrow> db \<Rightarrow> string \<Rightarrow> (int \<times> int) option \<Rightarrow> error + val" where
  "evaluate E st formula context_cell =
     (case parse_formula formula of
        Inl e \<Rightarrow> Inl e
      | Inr (func_name, args) \<Rightarrow>
          if func_name \<notin> set function_registry
          then Inl (ValueError (''Unknown function: '' @ func_name))
          else (case first_error
                       (map (\<lambda>arg. case classify_arg arg context_cell of
                                      Done r \<Rightarrow> r
                                    | Nested \<Rightarrow> evaluate E st arg context_cell)
                            args) of
                  Inl e \<Rightarrow> Inl e
                | Inr resolved_args \<Rightarrow> call_function E st func_name resolved_args))"
  by pat_completeness auto
termination
  by (relation "measure (\<lambda>(E, st, formula, context_cell). length formula)")
     (auto simp: parse_formula_length)

declare evaluate.simps [simp del]

section \<open>DimensionalDirectory.process_input\<close>

text \<open>
  The store of \<open>DimensionalDirectory\<close>: the tables \<open>inputs\<close>, \<open>units\<close> and \<open>mappings\<close>, and the
  HDF5 group \<open>inputs\<close>. The tokenizer and the embedding model are library calls, taken from
  the environment; how numpy and h5py encode the datasets is outside the model.
\<close>

record input_row =
  i_uuid :: string
  i_original_text :: string
  i_unit_count :: nat
  i_batch_type :: string

record unit_row =
  u_uuid :: string
  u_text :: string
  u_hash :: string
  u_embedding :: string

record mapping_row =
  mp_input_uuid :: string
  mp_unit_addr :: string
  mp_unit_uuid :: string
  mp_token_addr :: string
  mp_token_text :: string
  mp_embeddingID :: string

record h5_unit =
  hu_name :: string
  hu_original_unit :: string
  hu_tokens :: "string list"
  hu_token_addrs :: "string list"
  hu_embeddings :: "string list"

record h5_input =
  hi_unit_count :: nat
  hi_units :: "h5_unit list"

record dd_state =
  inputs :: "input_row list"
  units :: "unit_row list"
  mappings :: "mapping_row list"
  h5_inputs :: "string \<Rightarrow> h5_input option"
  dd_drawn :: nat

subsection \<open>TextDocumentProcessor\<close>

text \<open>\<open>s.split(sep)\<close> for a separator of any length; \<open>cur\<close> is the piece being read,
  reversed.\<close>

fun split_on :: "string \<Rightarrow> string \<Rightarrow> string \<Rightarrow> string list" where
  "split_on sep cur [] = [rev cur]"
| "split_on sep cur (x # xs) =
     (if sep \<noteq> [] \<and> take (length sep) (x # xs) = sep
      then rev cur # split_on sep [] (drop (length sep - 1) xs)
      else split_on sep (x # cur) xs)"

text \<open>The numbered items of \<open>enumerate\<close>, the number as the string \<open>f"{i}"\<close>.\<close>

definition enumerate_str :: "'a list \<Rightarrow> (string \<times> 'a) list" where
  "enumerate_str xs = zip (map str_nat [0..<length xs]) xs"

text \<open>\<open>preprocess\<close>: the units of the text with their addresses and hashes.\<close>

definition preprocess :: "env \<Rightarrow> string \<Rightarrow> string \<Rightarrow> error + (string \<times> string \<times> string) list" where
  "preprocess E batch_type raw_content =
     (let pieces = (\<lambda>sep. map py_strip (filter (\<lambda>s. py_strip s \<noteq> []) (split_on sep [] raw_content))) in
      case (if batch_type = ''sentence'' then Inr (pieces ''.'')
            else if batch_type = ''paragraph'' then Inr (pieces [CHR 0x0A, CHR 0x0A])
            else if batch_type = ''page'' then Inr (pieces [CHR 0x0C])
            else Inl (ValueError (''Unsupported batch_type: '' @ batch_type))) of
        Inl e \<Rightarrow> Inl e
      | Inr unit_texts \<Rightarrow>
          Inr (map (\<lambda>(i, unit_text). (i, unit_text, sha256_hex E unit_text))
                   (enumerate_str unit_texts)))"

text \<open>\<open>tokenize\<close>: the tokens of the tokenizer that are not word pieces or markers.\<close>

definition tokenize :: "env \<Rightarrow> string \<Rightarrow> (string \<times> string) list" where
  "tokenize E text =
     enumerate_str (filter (\<lambda>t. \<not> startswith t ''##'' \<and> t \<noteq> ''[CLS]'' \<and> t \<noteq> ''[SEP]'')
                           (bert_tokenize E text))"

subsection \<open>The transaction\<close>

text \<open>\<open>_get_or_create_unit\<close>: the unit of the same hash, or a new row; \<open>uuid\<close> is the primary
  key and \<open>hash\<close> is unique.\<close>

definition get_or_create_unit :: "env \<Rightarrow> dd_state \<Rightarrow> string \<Rightarrow> string \<Rightarrow> (error + string) \<times> dd_state" where
  "get_or_create_unit E st text unit_hash =
     (case find (\<lambda>r. u_hash r = unit_hash) (units st) of
        Some result \<Rightarrow> (Inr (u_uuid result), st)
      | None \<Rightarrow>
          (let unit_uuid = uuid4_str E (dd_drawn st);
               st1 = st\<lparr>dd_drawn := Suc (dd_drawn st)\<rparr> in
           if unit_uuid \<in> set (map u_uuid (units st1)) \<or> unit_hash \<in> set (map u_hash (units st1))
           then (Inl IntegrityError, st1)
           else (Inr unit_uuid,
                 st1\<lparr>units := units st1 @
                       [\<lparr>u_uuid = unit_uuid, u_text = text, u_hash = unit_hash,
                         u_embedding = bert_embedding E text\<rparr>]\<rparr>)))"

text \<open>The loop over the units, and the one over the tokens of a unit, inside the
  transaction.\<close>

definition map_unit ::
  "env \<Rightarrow> dd_state \<Rightarrow> string \<Rightarrow> string \<times> string \<times> string \<Rightarrow> (error + unit) \<times> dd_state" where
  "map_unit E st input_uuid u =
     (case u of (unit_addr, unit_text, unit_hash) \<Rightarrow>
        (let full_unit_addr = input_uuid @ CHR ''-'' # unit_addr in
         case get_or_create_unit E st unit_text unit_hash of
           (Inl e, st1) \<Rightarrow> (Inl e, st1)
         | (Inr unit_uuid, st1) \<Rightarrow>
             (Inr (),
              st1\<lparr>mappings := mappings st1 @
                    map (\<lambda>(token_addr, token_text).
                           \<lparr>mp_input_uuid = input_uuid, mp_unit_addr = full_unit_addr,
                            mp_unit_uuid = unit_uuid, mp_token_addr = token_addr,
                            mp_token_text = token_text,
                            mp_embeddingID = ''token-'' @ input_uuid @ CHR ''-'' # unit_addr
                                             @ CHR ''-'' # token_addr\<rparr>)
                        (tokenize E unit_text)\<rparr>)))"

fun map_units ::
  "env \<Rightarrow> dd_state \<Rightarrow> string \<Rightarrow> (string \<times> string \<times> string) list \<Rightarrow> (error + unit) \<times> dd_state" where
  "map_units E st input_uuid [] = (Inr (), st)"
| "map_units E st input_uuid (u # us) =
     (case map_unit E st input_uuid u of
        (Inl e, st1) \<Rightarrow> (Inl e, st1)
      | (Inr done, st1) \<Rightarrow> map_units E st1 input_uuid us)"

text \<open>The HDF5 groups of the input and of its units.\<close>

definition h5_units :: "env \<Rightarrow> string \<Rightarrow> (string \<times> string \<times> string) list \<Rightarrow> h5_unit list" where
  "h5_units E input_uuid us =
     map (\<lambda>(unit_addr, unit_text, unit_hash).
            \<lparr>hu_name = input_uuid @ CHR ''-'' # unit_addr, hu_original_unit = unit_text,
             hu_tokens = map snd (tokenize E unit_text),
             hu_token_addrs = map fst (tokenize E unit_text),
             hu_embeddings = map (bert_embedding E) (map snd (tokenize E unit_text))\<rparr>) us"

text \<open>
  \<open>process_input\<close>. The check of the units comes before the first statement on the
  database. An exception inside the transaction rolls it back, and the store is then the
  one before the call, but for the random identifiers drawn. The group of the input is
  created after the commit; \<open>create_group\<close> raises \<open>ValueError\<close> on a name that exists.
\<close>

definition process_input ::
  "env \<Rightarrow> string \<Rightarrow> dd_state \<Rightarrow> string \<Rightarrow> (error + string \<times> string) \<times> dd_state" where
  "process_input E batch_type st raw_input =
     (let input_uuid = uuid4_str E (dd_drawn st);
          st0 = st\<lparr>dd_drawn := Suc (dd_drawn st)\<rparr> in
      case preprocess E batch_type raw_input of
        Inl e \<Rightarrow> (Inl e, st0)
      | Inr us \<Rightarrow>
          if us = [] then (Inl (ValueError ''No valid units found in input text''), st0)
          else if input_uuid \<in> set (map i_uuid (inputs st0)) then (Inl IntegrityError, st0)
          else
            (case map_units E
                    (st0\<lparr>inputs := inputs st0 @
                           [\<lparr>i_uuid = input_uuid, i_original_text = raw_input,
                             i_unit_count = length us, i_batch_type = batch_type\<rparr>]\<rparr>)
                    input_uuid us of
               (Inl e, st1) \<Rightarrow> (Inl e, st0\<lparr>dd_drawn := dd_drawn st1\<rparr>)
             | (Inr done, st1) \<Rightarrow>
                 if h5_inputs st1 input_uuid \<noteq> None
                 then (Inl (ValueError ''Unable to create group (name already exists)''), st1)
                 else (Inr (input_uuid, str_nat (length us)),
                       st1\<lparr>h5_inputs := (h5_inputs st1)
                             (input_uuid \<mapsto> \<lparr>hi_unit_count = length us,
                                               hi_units = h5_units E input_uuid us\<rparr>)\<rparr>)))"

section \<open>Example states\<close>

definition report_tbl :: "ls_row list" where
  "report_tbl = [\<lparr>ls_dbidL = ''Report'', ls_dbidS = ''r1'', ls_description = None\<rparr>]"

definition report_st :: ls_state where
  "report_st = \<lparr>lstable = report_tbl, ls_files = Map.empty, global_file = None, ls_drawn = 0\<rparr>"

definition demo_env :: env where
  "demo_env = \<lparr>sha256_hex = (\<lambda>t. t),
     uuid4_hex = (\<lambda>n. ''0000000'' @ str_nat n @ ''aaaa4bbb8ccc000000000000''),
     float_truth = (\<lambda>lit. \<not> list_all (\<lambda>c. c \<in> set ''-0.'') lit),
     float_sql_text = (\<lambda>lit. lit),
     bert_tokenize = (\<lambda>text. ''[CLS]'' # word_runs [] (py_lower text) @ [''[SEP]'']),
     bert_embedding = (\<lambda>text. ''v:'' @ text)\<rparr>"

definition empty_db :: db where
  "empty_db = \<lparr>documents = [], sentences = [], doc_sentence_map = [], tokens = [],
     sentence_token_map = [], address_book = [], address_attributes = [], relations = None,
     h5_documents = Map.empty, h5_sentences = Map.empty, h5_tokens = Map.empty, drawn = 0\<rparr>"

definition cats_doc :: "(error + doc_info) \<times> db" where
  "cats_doc = process_document demo_env empty_db ''Cats are mammals. Dogs are mammals.''
     ''D1'' None None None None"


definition empty_dd :: dd_state where
  "empty_dd = \<lparr>inputs = [], units = [], mappings = [], h5_inputs = Map.empty, dd_drawn = 0\<rparr>"

definition blank_doc :: "(error + doc_info) \<times> db" where
  "blank_doc = process_document demo_env empty_db ''   '' ''D1'' None None None None"

section \<open>Token-address round trip\<close>

text \<open>
  Claim C9. For every sentence identifier \<open>u\<close>, dashes included, and every position
  \<open>p \<ge> 0\<close>, resolving the token address built from \<open>u\<close> and \<open>p\<close> gives back the pair
  \<open>(u, p)\<close>.
\<close>

theorem resolve_get_token_addr:
  "0 \<le> p \<Longrightarrow> resolve_token_addr (get_token_addr u p) = Some (u, p)"
proof -
  assume p: "0 \<le> p"
  let ?d = "str_nat (nat p)"
  have a: "get_token_addr u p = u @ CHR ''-'' # ?d"
    using p by (simp add: get_token_addr_def py_str_def)
  have s: "split_chr CHR ''-'' (u @ CHR ''-'' # ?d) = split_chr CHR ''-'' u @ [?d]"
    by (rule split_chr_append) (rule str_nat_no_dash)
  have n: "split_chr CHR ''-'' u \<noteq> []" by (rule split_chr_nonempty)
  then have l: "\<not> length (split_chr CHR ''-'' u @ [?d]) < 2"
    by (cases "split_chr CHR ''-'' u") auto
  show ?thesis
    unfolding resolve_token_addr_def a s Let_def
    using l p by (simp add: py_int_str_nat join_split_chr)
qed

theorem resolve_get_token_addr_witness:
  "(0::int) \<le> 3 \<and>
   resolve_token_addr (get_token_addr ''1b4e28ba-2fa1-41d2-883f-0016d3cca427'' 3)
     = Some (''1b4e28ba-2fa1-41d2-883f-0016d3cca427'', 3)"
  using resolve_get_token_addr [of 3 "''1b4e28ba-2fa1-41d2-883f-0016d3cca427''"] by simp

section \<open>Registering a mapping\<close>

lemma fresh_dbidS_terminates:
  "n \<le> k \<Longrightarrow> take 8 (uuid4_hex E k) \<notin> set (map ls_dbidS tbl) \<Longrightarrow>
   \<exists>m. n \<le> m \<and> m \<le> k \<and> fresh_dbidS E tbl n = Some (take 8 (uuid4_hex E m), Suc m)
       \<and> take 8 (uuid4_hex E m) \<notin> set (map ls_dbidS tbl)"
proof (induction "k - n" arbitrary: n)
  case 0
  then have "n = k" by simp
  with 0 show ?case by (subst fresh_dbidS.simps) auto
next
  case (Suc d)
  show ?case
  proof (cases "take 8 (uuid4_hex E n) \<in> set (map ls_dbidS tbl)")
    case False
    with Suc.prems show ?thesis by (subst fresh_dbidS.simps) auto
  next
    case True
    from Suc have "d = k - Suc n" "Suc n \<le> k" by simp_all
    from Suc.hyps(1) [OF this Suc.prems(2)]
    obtain m where m: "Suc n \<le> m" "m \<le> k"
        "fresh_dbidS E tbl (Suc n) = Some (take 8 (uuid4_hex E m), Suc m)"
        "take 8 (uuid4_hex E m) \<notin> set (map ls_dbidS tbl)"
      by blast
    have "fresh_dbidS E tbl n = fresh_dbidS E tbl (Suc n)"
      using True by (subst fresh_dbidS.simps) simp
    with m show ?thesis by (intro exI [of _ m]) simp
  qed
qed

lemma find_None_dbidL:
  "find (\<lambda>r. ls_dbidL r = L) tbl = None \<longleftrightarrow> L \<notin> set (map ls_dbidL tbl)"
  by (auto simp: find_None_iff)

text \<open>
  Claim C6. When the long identifier \<open>L\<close> is in the table with the short identifier
  \<open>S1\<close>, registering \<open>L\<close> again with another explicit short identifier \<open>S2\<close> returns
  \<open>(L, S1)\<close> and leaves the table, the files and the random stream as they were.
\<close>

theorem register_mapping_existing:
  "find (\<lambda>r. ls_dbidL r = L) (lstable st) = Some row \<Longrightarrow> ls_dbidS row = S1 \<Longrightarrow>
   S2 \<noteq> [] \<Longrightarrow> S2 \<noteq> S1 \<Longrightarrow>
   register_mapping E st L (Some S2) d = Some (Inr (L, S1), st)"
  by (simp add: register_mapping_def requested_dbidS_def)

theorem register_mapping_existing_witness:
  "register_mapping demo_env report_st ''Report'' (Some ''r2'') None
     = Some (Inr (''Report'', ''r1''), report_st)"
  using register_mapping_existing
    [of "''Report''" report_st "\<lparr>ls_dbidL = ''Report'', ls_dbidS = ''r1'', ls_description = None\<rparr>"
        "''r1''" "''r2''" demo_env None]
  by (simp add: report_st_def report_tbl_def)

text \<open>
  Claim C10. When \<open>L\<close> is not in the table and the requested short identifier \<open>S\<close>
  belongs to another long identifier, the call raises nothing: it draws random
  identifiers until one is not in the table, appends the row \<open>(L, fresh)\<close> and returns
  that pair. The loop ends as soon as the random stream gives an unused identifier,
  which is the hypothesis on \<open>k\<close>.
\<close>

theorem register_mapping_collision:
  assumes "L \<notin> set (map ls_dbidL (lstable st))"
    and "S \<noteq> []"
    and "S \<in> set (map ls_dbidS (lstable st))"
    and "ls_drawn st \<le> k"
    and "take 8 (uuid4_hex E k) \<notin> set (map ls_dbidS (lstable st))"
  shows "\<exists>fresh st'. register_mapping E st L (Some S) d = Some (Inr (L, fresh), st')
           \<and> fresh \<notin> set (map ls_dbidS (lstable st))
           \<and> lstable st' = lstable st @ [\<lparr>ls_dbidL = L, ls_dbidS = fresh, ls_description = d\<rparr>]"
proof -
  from fresh_dbidS_terminates [OF assms(4) assms(5)]
  obtain m where m: "fresh_dbidS E (lstable st) (ls_drawn st) = Some (take 8 (uuid4_hex E m), Suc m)"
      "take 8 (uuid4_hex E m) \<notin> set (map ls_dbidS (lstable st))"
    by blast
  have f: "find (\<lambda>r. ls_dbidL r = L) (lstable st) = None"
    using assms(1) by (simp add: find_None_dbidL)
  show ?thesis
    using assms(1,2,3) m f
    by (simp add: register_mapping_def requested_dbidS_def ls_insert_def update_lstable_file_def)
qed

theorem register_mapping_collision_witness:
  "\<exists>fresh st'. register_mapping demo_env report_st ''Summary'' (Some ''r1'') None
       = Some (Inr (''Summary'', fresh), st')
     \<and> fresh \<notin> set (map ls_dbidS (lstable report_st))
     \<and> lstable st' = lstable report_st
         @ [\<lparr>ls_dbidL = ''Summary'', ls_dbidS = fresh, ls_description = None\<rparr>]"
proof -
  have 1: "''Summary'' \<notin> set (map ls_dbidL (lstable report_st))"
    by (simp add: report_st_def report_tbl_def)
  have 2: "''r1'' \<noteq> []" by simp
  have 3: "''r1'' \<in> set (map ls_dbidS (lstable report_st))"
    by (simp add: report_st_def report_tbl_def)
  have 4: "ls_drawn report_st \<le> 0" by (simp add: report_st_def)
  have 5: "take 8 (uuid4_hex demo_env 0) \<notin> set (map ls_dbidS (lstable report_st))"
    by (simp add: report_st_def report_tbl_def demo_env_def str_nat.simps digit_chr_simps)
  show ?thesis by (rule register_mapping_collision [OF 1 2 3 4 5])
qed

section \<open>Sentence deduplication\<close>

lemma find_append:
  "find P (xs @ ys) = (case find P xs of Some x \<Rightarrow> Some x | None \<Rightarrow> find P ys)"
  by (induction xs) auto

lemma filter_find_None: "find P xs = None \<Longrightarrow> filter P xs = []"
  by (induction xs) (auto split: if_splits)

lemma filter_key_distinct:
  "distinct (map f xs) \<Longrightarrow> find (\<lambda>r. f r = k) xs = Some r \<Longrightarrow> filter (\<lambda>r. f r = k) xs = [r]"
proof (induction xs)
  case Nil
  then show ?case by simp
next
  case (Cons x xs)
  show ?case
  proof (cases "f x = k")
    case True
    with Cons.prems have "r = x" by simp
    moreover have "filter (\<lambda>r. f r = k) xs = []"
    proof -
      from Cons.prems(1) have "f x \<notin> f ` set xs" by simp
      with True have "\<forall>y \<in> set xs. f y \<noteq> k" by blast
      then show ?thesis by (simp add: filter_empty_conv)
    qed
    ultimately show ?thesis using True by simp
  next
    case False
    with Cons show ?thesis by simp
  qed
qed

text \<open>
  Claim C1. When creating the sentence \<open>t\<close> returns an identifier, creating \<open>t\<close> again
  returns the same identifier with \<open>is_new = False\<close> and changes nothing in the store: no
  second row is inserted. The table \<open>sentences\<close> keeps its hashes distinct, and the rows of
  the hash of \<open>t\<close> carry that one identifier.
\<close>

theorem get_or_create_sentence_twice:
  assumes wf: "distinct (map s_hash (sentences st))"
    and first: "get_or_create_sentence E st t = (Inr (u, b), st1)"
  shows "get_or_create_sentence E st1 t = (Inr (u, False), st1)
         \<and> map s_uuid (filter (\<lambda>r. s_hash r = sha256_hex E t) (sentences st1)) = [u]
         \<and> distinct (map s_hash (sentences st1))"
proof (cases "find (\<lambda>r. s_hash r = sha256_hex E t) (sentences st)")
  case (Some r)
  with first have e: "st1 = st" "u = s_uuid r"
    by (simp_all add: get_or_create_sentence_def)
  from Some e wf show ?thesis
    by (simp add: get_or_create_sentence_def filter_key_distinct [OF wf Some])
next
  case None
  let ?row = "\<lparr>s_uuid = uuid4_str E (drawn st), s_text = t, s_hash = sha256_hex E t\<rparr>"
  from None first have ok: "sha256_hex E t \<notin> set (map s_hash (sentences st))"
    and u: "u = uuid4_str E (drawn st)"
    and s: "sentences st1 = sentences st @ [?row]"
    by (auto simp: get_or_create_sentence_def Let_def split: if_splits)
  have f: "find (\<lambda>r. s_hash r = sha256_hex E t) (sentences st1) = Some ?row"
    using None s by (simp add: find_append)
  from f u have 1: "get_or_create_sentence E st1 t = (Inr (u, False), st1)"
    by (simp add: get_or_create_sentence_def)
  have 2: "map s_uuid (filter (\<lambda>r. s_hash r = sha256_hex E t) (sentences st1)) = [u]"
    using s u filter_find_None [OF None] by simp
  have 3: "distinct (map s_hash (sentences st1))"
    using s wf ok by simp
  from 1 2 3 show ?thesis by simp
qed

theorem get_or_create_sentence_twice_witness:
  "distinct (map s_hash (sentences empty_db))
   \<and> get_or_create_sentence demo_env
         (snd (get_or_create_sentence demo_env empty_db ''Dogs are mammals.''))
         ''Dogs are mammals.''
       = (Inr (''00000000-aaaa-4bbb-8ccc-000000000000'', False),
          snd (get_or_create_sentence demo_env empty_db ''Dogs are mammals.''))
   \<and> map s_uuid (filter (\<lambda>r. s_hash r = sha256_hex demo_env ''Dogs are mammals.'')
         (sentences (snd (get_or_create_sentence demo_env empty_db ''Dogs are mammals.''))))
       = [''00000000-aaaa-4bbb-8ccc-000000000000'']"
proof -
  have wf: "distinct (map s_hash (sentences empty_db))"
    by (simp add: empty_db_def)
  have first: "get_or_create_sentence demo_env empty_db ''Dogs are mammals.''
      = (Inr (''00000000-aaaa-4bbb-8ccc-000000000000'', True),
         snd (get_or_create_sentence demo_env empty_db ''Dogs are mammals.''))"
    by (simp add: get_or_create_sentence_def empty_db_def demo_env_def uuid4_str_def Let_def
        str_nat.simps digit_chr_simps)
  from get_or_create_sentence_twice [OF wf first] wf show ?thesis by simp
qed

section \<open>Positions of the sentences of a document\<close>

lemma create_address_frame:
  "\<exists>book. snd (create_address st addr u t z) = st\<lparr>address_book := book\<rparr>"
proof (induction st addr u t z rule: create_address.induct)
  case (1 st addr u t z)
  have ins: "\<exists>book. snd (insert_address s a v w p y) = s\<lparr>address_book := book\<rparr>" for s a v w p y
  proof (cases "a \<in> set (map a_addr (address_book s))")
    case True
    then have "snd (insert_address s a v w p y) = s\<lparr>address_book := address_book s\<rparr>"
      by (simp add: insert_address_def)
    then show ?thesis by blast
  next
    case False
    then show ?thesis by (simp add: insert_address_def) blast
  qed
  show ?case
  proof (cases "addr \<in> set (map a_addr (address_book st))")
    case True
    then show ?thesis
      by (subst create_address.simps) (auto simp: update_address_def)
  next
    case False
    show ?thesis
    proof (cases "parent_addr_of addr")
      case None
      with False ins [of st addr u t None z] show ?thesis
        by (subst create_address.simps) simp
    next
      case (Some p)
      show ?thesis
      proof (cases "p \<noteq> [] \<and> p \<notin> set (map a_addr (address_book st))")
        case f: False
        with False Some ins [of st addr u t "Some p" z] show ?thesis
          by (subst create_address.simps) auto
      next
        case t: True
        from "1.IH" [OF False Some t]
        obtain book where b: "snd (create_address st p None t 0) = st\<lparr>address_book := book\<rparr>"
          by blast
        obtain r st1 where c: "create_address st p None t 0 = (r, st1)"
          by (cases "create_address st p None t 0")
        with b have st1: "st1 = st\<lparr>address_book := book\<rparr>" by simp
        show ?thesis
        proof (cases r)
          case (Inl e)
          with False Some t c st1 show ?thesis
            by (subst create_address.simps) auto
        next
          case (Inr created)
          from ins [of st1 addr u t "Some p" z] obtain book' where
            "snd (insert_address st1 addr u t (Some p) z) = st1\<lparr>address_book := book'\<rparr>"
            by blast
          with Inr False Some t c st1 show ?thesis
            by (subst create_address.simps) auto
        qed
      qed
    qed
  qed
qed

lemma create_address_dsm:
  "create_address st addr u t z = (r, st') \<Longrightarrow> doc_sentence_map st' = doc_sentence_map st"
  using create_address_frame [of st addr u t z] by auto

lemma process_token_dsm:
  "process_token E st su pos tok = (r, st') \<Longrightarrow> doc_sentence_map st' = doc_sentence_map st"
  by (auto simp: process_token_def get_or_create_token_def map_token_to_sentence_def Let_def
      split: option.splits prod.splits sum.splits if_splits dest!: create_address_dsm)

lemma process_tokens_dsm:
  "process_tokens E st su pos toks = (r, st') \<Longrightarrow> doc_sentence_map st' = doc_sentence_map st"
proof (induction toks arbitrary: st pos r st')
  case Nil
  then show ?case by simp
next
  case (Cons tok toks)
  then show ?case
    by (auto split: prod.splits sum.splits dest!: process_token_dsm)
qed


lemma get_or_create_sentence_dsm:
  "get_or_create_sentence E st t = (r, st') \<Longrightarrow> doc_sentence_map st' = doc_sentence_map st"
  by (auto simp: get_or_create_sentence_def Let_def split: option.splits if_splits)

lemma process_sentence_dsm:
  assumes "process_sentence E st d pos t = (Inr p, st')"
  shows "\<exists>u. doc_sentence_map st' =
           (if \<lparr>m_doc_uuid = d, m_sentence_uuid = u, m_position = pos\<rparr> \<in> set (doc_sentence_map st)
            then doc_sentence_map st
            else doc_sentence_map st @ [\<lparr>m_doc_uuid = d, m_sentence_uuid = u, m_position = pos\<rparr>])"
proof -
  from assms obtain u b st1 where g: "get_or_create_sentence E st t = (Inr (u, b), st1)"
    by (auto simp: process_sentence_def split: prod.splits sum.splits)
  let ?st2 = "map_sentence_to_document st1 u d pos"
  from assms g obtain c st3 where
    a: "create_address ?st2 (''doc:'' @ d @ CHR ''-'' # py_str pos) (Some u) (Some ''sentence'') 0
          = (Inr c, st3)"
    by (auto simp: process_sentence_def Let_def split: prod.splits sum.splits)
  from assms g a obtain toks where
    k: "(if b then process_sentence_tokens E st3 t u else (Inr [], st3)) = (Inr toks, st')"
    by (auto simp: process_sentence_def Let_def split: prod.splits sum.splits)
  have "doc_sentence_map st' = doc_sentence_map st3"
    using k by (auto simp: process_sentence_tokens_def split: if_splits dest: process_tokens_dsm)
  also have "\<dots> = doc_sentence_map ?st2" using a by (rule create_address_dsm)
  finally have "doc_sentence_map st' = doc_sentence_map ?st2" .
  moreover have "doc_sentence_map st1 = doc_sentence_map st"
    using g by (rule get_or_create_sentence_dsm)
  ultimately show ?thesis
    by (intro exI [of _ u]) (simp add: map_sentence_to_document_def Let_def)
qed

lemma process_sentences_positions:
  assumes "process_sentences E st d pos ts = (Inr ps, st')"
    and "\<forall>r \<in> set (doc_sentence_map st). m_doc_uuid r = d \<longrightarrow> m_position r < pos"
  shows "map m_position (filter (\<lambda>r. m_doc_uuid r = d) (doc_sentence_map st'))
         = map m_position (filter (\<lambda>r. m_doc_uuid r = d) (doc_sentence_map st))
           @ map (\<lambda>i. pos + int i) [0..<length ts]"
  using assms
proof (induction ts arbitrary: st pos ps st')
  case Nil
  then show ?case by simp
next
  case (Cons t ts)
  from Cons.prems(1) obtain p st1 where
    one: "process_sentence E st d pos t = (Inr p, st1)"
    by (auto split: prod.splits sum.splits)
  with Cons.prems(1) obtain ps' where
    rest: "process_sentences E st1 d (pos + 1) ts = (Inr ps', st')"
    by (auto split: prod.splits sum.splits)
  from process_sentence_dsm [OF one] obtain u where
    m: "doc_sentence_map st1 =
         (if \<lparr>m_doc_uuid = d, m_sentence_uuid = u, m_position = pos\<rparr> \<in> set (doc_sentence_map st)
          then doc_sentence_map st
          else doc_sentence_map st @ [\<lparr>m_doc_uuid = d, m_sentence_uuid = u, m_position = pos\<rparr>])"
    by blast
  have "\<lparr>m_doc_uuid = d, m_sentence_uuid = u, m_position = pos\<rparr> \<notin> set (doc_sentence_map st)"
    using Cons.prems(2) by force
  with m have m': "doc_sentence_map st1
      = doc_sentence_map st @ [\<lparr>m_doc_uuid = d, m_sentence_uuid = u, m_position = pos\<rparr>]"
    by simp
  have inv: "\<forall>r \<in> set (doc_sentence_map st1). m_doc_uuid r = d \<longrightarrow> m_position r < pos + 1"
    using Cons.prems(2) m' by auto
  have "map (\<lambda>i. pos + int i) [0..<length (t # ts)]
        = pos # map (\<lambda>i. pos + 1 + int i) [0..<length ts]"
    by (simp add: map_upt_Suc del: upt_Suc)
  with Cons.IH [OF rest inv] m' show ?case by simp
qed

text \<open>
  Claim C2. When \<open>process_document\<close> returns a document, the rows of \<open>doc_sentence_map\<close>
  of that document carry the positions \<open>0, 1, \<dots>, n - 1\<close> in this order, once each,
  \<open>n\<close> being the number of segmented sentences. The store before the call refers, in
  \<open>doc_sentence_map\<close>, to documents of the table \<open>documents\<close> only.
\<close>

theorem process_document_positions:
  assumes "process_document E st content dbidL dbidS title source metadata = (Inr info, st')"
    and "set (map m_doc_uuid (doc_sentence_map st)) \<subseteq> set (map d_uuid (documents st))"
  shows "map m_position (filter (\<lambda>r. m_doc_uuid r = di_uuid info) (doc_sentence_map st'))
         = map int [0..<length (split_into_sentences content)]"
proof -
  let ?d = "uuid4_str E (drawn st)"
  let ?s = "case dbidS of None \<Rightarrow> take 8 ?d | Some s \<Rightarrow> if s = [] then take 8 ?d else s"
  let ?row = "\<lparr>d_uuid = ?d, d_dbidL = dbidL, d_dbidS = ?s, d_title = title, d_source = source,
               d_metadata = metadata\<rparr>"
  from assms(1) obtain st1 where
    ins: "insert_document (st\<lparr>drawn := Suc (drawn st)\<rparr>) ?row = (Inr (), st1)"
    by (auto simp: process_document_def Let_def split: prod.splits sum.splits)
  then have fresh: "?d \<notin> set (map d_uuid (documents st))"
    and m1: "doc_sentence_map st1 = doc_sentence_map st"
    by (auto simp: insert_document_def split: if_splits)
  from assms(1) ins obtain processed st2 where
    loop: "process_sentences E st1 ?d 0 (split_into_sentences content) = (Inr processed, st2)"
    and info: "di_uuid info = ?d"
    and st': "st' = store_document_h5 st2 ?d dbidL ?s title source content processed"
    by (auto simp: process_document_def Let_def split: prod.splits sum.splits)
  from fresh assms(2) have none: "?d \<notin> set (map m_doc_uuid (doc_sentence_map st))" by blast
  then have e: "filter (\<lambda>r. m_doc_uuid r = ?d) (doc_sentence_map st1) = []"
    using m1 by (force simp: filter_empty_conv)
  then have inv: "\<forall>r \<in> set (doc_sentence_map st1). m_doc_uuid r = ?d \<longrightarrow> m_position r < 0"
    by (auto simp: filter_empty_conv)
  have "doc_sentence_map st' = doc_sentence_map st2"
    using st' by (simp add: store_document_h5_def)
  with process_sentences_positions [OF loop inv] e info show ?thesis by simp
qed

lemma cats_ok: "(case fst cats_doc of Inl e \<Rightarrow> False | Inr i \<Rightarrow> di_uuid i = ''00000000-aaaa-4bbb-8ccc-000000000000'')"
  by code_simp

lemma cats_n: "split_into_sentences ''Cats are mammals. Dogs are mammals.'' = [''Cats are mammals.'', ''Dogs are mammals.'']"
  by code_simp

theorem process_document_positions_witness:
  "map m_position (filter (\<lambda>r. m_doc_uuid r = ''00000000-aaaa-4bbb-8ccc-000000000000'')
      (doc_sentence_map (snd cats_doc))) = [0, 1]"
proof -
  from cats_ok obtain i where i: "fst cats_doc = Inr i"
    and u: "di_uuid i = ''00000000-aaaa-4bbb-8ccc-000000000000''"
    by (cases "fst cats_doc") auto
  then have ok: "process_document demo_env empty_db ''Cats are mammals. Dogs are mammals.''
     ''D1'' None None None None = (Inr i, snd cats_doc)"
    by (simp add: cats_doc_def prod_eq_iff)
  have ri: "set (map m_doc_uuid (doc_sentence_map empty_db)) \<subseteq> set (map d_uuid (documents empty_db))"
    by (simp add: empty_db_def)
  from process_document_positions [OF ok ri] u show ?thesis
    by (simp add: cats_n upt_rec)
qed

section \<open>Relations are set once\<close>

text \<open>
  \<open>map_addr_to_uuid\<close> reads the second of the parts between dashes as the position. The
  address that \<open>process_document\<close> gives an occurrence holds the identifier of the document,
  which has dashes of its own, so that the part read is a group of the identifier: the
  address of the first example document is not resolved, in any store. The stores of the
  examples below name their documents without dashes.
\<close>

lemma map_addr_to_uuid_dashed:
  "map_addr_to_uuid st ''doc:00000000-aaaa-4bbb-8ccc-000000000000-0''
     = Inl (ValueError ''invalid literal for int() with base 10'')"
proof -
  have "py_int ''aaaa'' = None" by code_simp
  moreover have "split_chr CHR ''-'' ''doc:00000000-aaaa-4bbb-8ccc-000000000000-0''
      = [''doc:00000000'', ''aaaa'', ''4bbb'', ''8ccc'', ''000000000000'', ''0'']"
    by code_simp
  ultimately show ?thesis by (simp add: map_addr_to_uuid_def)
qed









section \<open>Address round trip\<close>














section \<open>Formulas on a cell without identifier\<close>

lemma split_args_plain:
  "list_all plain_char w \<Longrightarrow>
   split_args args cur q lvl (w @ rest) = split_args args (cur @ w) q lvl rest"
  by (induction w arbitrary: cur) (auto simp: plain_char_def)

lemma split_args_quoted:
  "CHR 0x22 \<notin> set w \<Longrightarrow>
   split_args args cur True lvl (w @ rest) = split_args args (cur @ w) True lvl rest"
  by (induction w arbitrary: cur) auto

lemma alnum_plain: "is_alpha c \<or> is_digit c \<Longrightarrow> plain_char c \<and> \<not> is_space c \<and> c \<noteq> CHR 0x0A"
  by (auto simp: is_alpha_def is_upper_def is_lower_def is_digit_def is_space_def plain_char_def
      Let_def)

lemma match_cell_ref_alnum:
  assumes "match_cell_ref C = Some (col, row)"
  shows "list_all (\<lambda>c. is_alpha c \<or> is_digit c) C \<and> C \<noteq> [] \<and> is_alpha (hd C)"
proof -
  from assms have c: "takeWhile is_alpha C \<noteq> []" and d: "list_all is_digit (dropWhile is_alpha C)"
    by (auto simp: match_cell_ref_def all_digits_def Let_def split: if_splits)
  have "set C = set (takeWhile is_alpha C) \<union> set (dropWhile is_alpha C)"
    by (metis set_append takeWhile_dropWhile_id)
  with d have 1: "list_all (\<lambda>c. is_alpha c \<or> is_digit c) C"
    by (auto simp: list_all_iff dest: set_takeWhileD)
  from c have 2: "C \<noteq> []" by auto
  from c have "hd C \<in> set (takeWhile is_alpha C)"
    by (cases C) (auto split: if_splits)
  then have 3: "is_alpha (hd C)" by (auto dest: set_takeWhileD)
  from 1 2 3 show ?thesis by simp
qed

lemma py_strip_nospace:
  assumes "s \<noteq> []" "\<not> is_space (hd s)" "\<not> is_space (last s)"
  shows "py_strip s = s"
proof -
  from assms have 1: "dropWhile is_space s = s" by (cases s) auto
  from assms have "rev s \<noteq> []" "\<not> is_space (hd (rev s))" by (simp_all add: hd_rev)
  then have 2: "dropWhile is_space (rev s) = rev s" by (cases "rev s") auto
  from 1 2 show ?thesis by (simp add: py_strip_def)
qed

lemma py_strip_lead_space:
  "is_space c \<Longrightarrow> py_strip (c # s) = py_strip s"
  by (simp add: py_strip_def)


lemma valid_name_rel: "valid_name ''rel''"
  by code_simp

lemma rel_registered: "''rel'' \<in> set function_registry"
  by (simp add: function_registry_def)

lemma split_args_cell_type:
  assumes "list_all (\<lambda>c. is_alpha c \<or> is_digit c) C" and "C \<noteq> []"
    and "CHR 0x22 \<notin> set ty"
  shows "split_args [] [] False 0 (C @ '', '' @ CHR 0x22 # ty @ [CHR 0x22])
         = [C, CHR 0x22 # ty @ [CHR 0x22]]"
proof -
  from assms(1) have plain: "list_all plain_char C"
    using alnum_plain by (auto simp: list_all_iff)
  from assms(1,2) have "is_alpha (hd C) \<or> is_digit (hd C)" "is_alpha (last C) \<or> is_digit (last C)"
    by (simp_all add: list_all_iff)
  then have "\<not> is_space (hd C)" "\<not> is_space (last C)"
    using alnum_plain by blast+
  with assms(2) have sC: "py_strip C = C" by (simp add: py_strip_nospace)
  have sp: "is_space CHR '' ''" by (simp add: is_space_def)
  have nq: "\<not> is_space CHR 0x22" by (simp add: is_space_def)
  have sT: "py_strip (CHR '' '' # CHR 0x22 # ty @ [CHR 0x22]) = CHR 0x22 # ty @ [CHR 0x22]"
    using sp nq by (simp add: py_strip_lead_space py_strip_nospace)
  have "split_args [] [] False 0 (C @ '', '' @ CHR 0x22 # ty @ [CHR 0x22])
        = split_args [] ([] @ C) False 0 ('', '' @ CHR 0x22 # ty @ [CHR 0x22])"
    using plain by (rule split_args_plain)
  also have "\<dots> = split_args [C] [CHR '' '', CHR 0x22] True 0 (ty @ [CHR 0x22])"
    by (simp add: sC)
  also have "\<dots> = split_args [C] ([CHR '' '', CHR 0x22] @ ty) True 0 [CHR 0x22]"
    using assms(3) by (rule split_args_quoted)
  also have "\<dots> = [C, CHR 0x22 # ty @ [CHR 0x22]]"
    using sT by simp
  finally show ?thesis .
qed

lemma match_formula_rel:
  assumes "CHR 0x0A \<notin> set a"
  shows "match_formula (''rel('' @ a @ [CHR '')'']) = Some (''rel'', a)"
proof -
  have "takeWhile (\<lambda>c. c \<noteq> CHR ''('') (''rel('' @ a @ [CHR '')'']) = ''rel''"
    and "dropWhile (\<lambda>c. c \<noteq> CHR ''('') (''rel('' @ a @ [CHR '')'']) = CHR ''('' # (a @ [CHR '')''])"
    by simp_all
  then show ?thesis
    using assms valid_name_rel unfolding match_formula_def Let_def
    by (simp del: append_Cons append_Nil add: butlast_snoc last_snoc)
qed

lemma parse_rel_cell:
  assumes "list_all (\<lambda>c. is_alpha c \<or> is_digit c) C" and "C \<noteq> []"
    and "CHR 0x22 \<notin> set ty" and "CHR 0x0A \<notin> set ty"
  shows "parse_formula (''=rel('' @ C @ '', '' @ CHR 0x22 # ty @ [CHR 0x22, CHR '')''])
         = Inr (''rel'', [C, CHR 0x22 # ty @ [CHR 0x22]])"
proof -
  let ?r = "C @ '', '' @ CHR 0x22 # ty @ [CHR 0x22, CHR '')'']"
  let ?a = "C @ '', '' @ CHR 0x22 # ty @ [CHR 0x22]"
  have r: "?r = ?a @ [CHR '')'']" by simp
  have "CHR 0x0A \<notin> set C"
    using assms(1) alnum_plain [of "CHR 0x0A"] by (auto simp: list_all_iff)
  with assms(4) have nl: "CHR 0x0A \<notin> set ?a" by simp
  have strip: "py_strip (''rel('' @ ?r) = ''rel('' @ ?r"
    by (rule py_strip_nospace) (simp_all add: is_space_def)
  have m: "match_formula (''rel('' @ ?r) = Some (''rel'', ?a)"
    unfolding r using nl by (rule match_formula_rel)
  have "parse_formula (CHR ''='' # ''rel('' @ ?r) = Inr (''rel'', split_args [] [] False 0 ?a)"
    using m strip by (simp add: parse_formula_def Let_def)
  with split_args_cell_type [OF assms(1,2,3)] show ?thesis by simp
qed

text \<open>
  Claim C8, as the code has it. For a cell reference \<open>C\<close> whose address \<open>a\<close> has no
  identifier in the store, and a type without a double quote or a newline, the formula
  \<open>=rel(C, "type")\<close> evaluates to \<open>None\<close>: a result, and not an error.
\<close>

theorem evaluate_rel_unmapped:
  assumes "cell_to_addr C context_cell = Inr a"
    and "map_addr_to_uuid st a = Inr None"
    and "CHR 0x22 \<notin> set ty" and "CHR 0x0A \<notin> set ty"
  shows "evaluate E st (''=rel('' @ C @ '', '' @ CHR 0x22 # ty @ [CHR 0x22, CHR '')'']) context_cell
         = Inr VNone"
proof -
  from assms(1) obtain col row where m: "match_cell_ref C = Some (col, row)"
    by (auto simp: cell_to_addr_def split: option.splits)
  from match_cell_ref_alnum [OF m] have al: "list_all (\<lambda>c. is_alpha c \<or> is_digit c) C"
    and ne: "C \<noteq> []" and h: "is_alpha (hd C)" by simp_all
  from h have "hd C \<noteq> CHR 0x22" using alnum_plain [of "hd C"] by (simp add: plain_char_def)
  with m assms(1) have c1: "classify_arg C context_cell = Done (Inr (VStr a))"
    by (simp add: classify_arg_def)
  have c2: "classify_arg (CHR 0x22 # ty @ [CHR 0x22]) context_cell = Done (Inr (VStr ty))"
    by (simp add: classify_arg_def)
  have call: "call_function E st ''rel'' [VStr a, VStr ty] = Inr VNone"
    using assms(2) by (simp add: call_function_def rel_function_def addr_to_uuid_def truthy_def)
  note p = parse_rel_cell [OF al ne assms(3,4)]
  show ?thesis
    by (subst evaluate.simps, simp only: p)
       (simp add: rel_registered c1 c2 call)
qed

theorem evaluate_rel_unmapped_witness:
  "evaluate demo_env empty_db (''=rel('' @ ''B7'' @ '', '' @ CHR 0x22 # ''synonym'' @ [CHR 0x22, CHR '')'']) None
     = Inr VNone"
proof -
  have 1: "cell_to_addr ''B7'' None = Inr ''doc:current_document-6''" by code_simp
  have 2: "map_addr_to_uuid empty_db ''doc:current_document-6'' = Inr None" by code_simp
  have 3: "CHR 0x22 \<notin> set ''synonym''" by simp
  have 4: "CHR 0x0A \<notin> set ''synonym''" by simp
  show ?thesis by (rule evaluate_rel_unmapped [OF 1 2 3 4])
qed

text \<open>
  Claim C8 as the specification states it asks for an error here. In the empty store the
  cell \<open>A1\<close> is the address \<open>doc:current_document-0\<close>, which has no identifier, and the
  formula returns \<open>None\<close>.
\<close>

theorem evaluate_rel_unmapped_counterexample:
  "cell_to_addr ''A1'' None = Inr ''doc:current_document-0''
   \<and> map_addr_to_uuid empty_db ''doc:current_document-0'' = Inr None
   \<and> evaluate demo_env empty_db ''=rel(A1, \"translation\")'' None = Inr VNone"
  by code_simp

section \<open>Counting relations\<close>

text \<open>
  When the table \<open>relations\<close> exists, \<open>rel.count\<close> without a type is the number of rows whose
  source is the identifier of the address.
\<close>

lemma rel_count_all_types:
  assumes "map_addr_to_uuid st a = Inr (Some u)" and "u \<noteq> []" and "relations st = Some rels"
  shows "rel_count_function E st (VStr a) VNone
         = Inr (VInt (int (length [r \<leftarrow> rels. r_source_uuid r = u])))"
  using assms by (simp add: rel_count_function_def addr_to_uuid_def truthy_def val_truth_def)

lemma one_sentence_per_target:
  assumes "distinct (map s_uuid ss)" and "x \<in> set (map s_uuid ss)"
  shows "length [t \<leftarrow> ss. s_uuid t = x] = 1"
  using assms
proof (induction ss)
  case Nil
  then show ?case by simp
next
  case (Cons s ss)
  show ?case
  proof (cases "s_uuid s = x")
    case True
    from Cons.prems(1) have "s_uuid s \<notin> s_uuid ` set ss" by simp
    with True have "\<forall>t \<in> set ss. s_uuid t \<noteq> x" by blast
    then have "[t \<leftarrow> ss. s_uuid t = x] = []" by (simp add: filter_empty_conv)
    with True show ?thesis by simp
  next
    case False
    with Cons show ?thesis by auto
  qed
qed

lemma length_concat_if:
  "length (concat (map (\<lambda>t. if P t then [f t] else []) xs)) = length (filter P xs)"
  by (induction xs) auto

text \<open>
  The related content of every type is the join that \<open>rel.all\<close> computes without the
  condition on the type; the formula language has no function that returns it. Its
  length is the number of rows when every target is a stored sentence.
\<close>

lemma related_all_length:
  assumes "distinct (map s_uuid (sentences st))"
    and "\<forall>r \<in> set rels. r_target_uuid r \<in> set (map s_uuid (sentences st))"
  shows "length [s_text t. r \<leftarrow> rels, r_source_uuid r = u,
                          t \<leftarrow> sentences st, s_uuid t = r_target_uuid r]
         = length [r \<leftarrow> rels. r_source_uuid r = u]"
  using assms(2)
proof (induction rels)
  case Nil
  then show ?case by simp
next
  case (Cons r rels)
  have "length (concat (map (\<lambda>t. if s_uuid t = r_target_uuid r then [s_text t] else [])
                          (sentences st)))
        = length [t \<leftarrow> sentences st. s_uuid t = r_target_uuid r]"
    by (rule length_concat_if)
  also have "\<dots> = 1"
    using assms(1) Cons.prems by (intro one_sentence_per_target) auto
  finally have one: "length (concat (map (\<lambda>t. if s_uuid t = r_target_uuid r then [s_text t] else [])
                          (sentences st))) = 1" .
  from Cons have "length [s_text t. r \<leftarrow> rels, r_source_uuid r = u,
                          t \<leftarrow> sentences st, s_uuid t = r_target_uuid r]
         = length [r \<leftarrow> rels. r_source_uuid r = u]" by simp
  with one show ?case by simp
qed


section \<open>Empty and blank texts\<close>

lemma py_strip_all_space:
  assumes "list_all is_space s"
  shows "py_strip s = []"
proof -
  from assms have d: "dropWhile is_space s = []"
    by (simp add: dropWhile_eq_Nil_conv list_all_iff)
  show ?thesis unfolding py_strip_def d by simp
qed

lemma re_split_chars:
  "p \<in> set (re_split seen cur s) \<Longrightarrow> set p \<subseteq> set cur \<union> set s"
proof (induction s arbitrary: seen cur)
  case Nil
  then show ?case by simp
next
  case (Cons c cs)
  show ?case
  proof (cases "sentence_break seen c")
    case True
    with Cons.prems have "p = rev cur \<or> p \<in> set (re_split (c # seen) [] cs)" by simp
    then show ?thesis
    proof
      assume "p = rev cur"
      then show ?thesis by auto
    next
      assume "p \<in> set (re_split (c # seen) [] cs)"
      from Cons.IH [OF this] show ?thesis by auto
    qed
  next
    case False
    with Cons.prems have "p \<in> set (re_split (c # seen) (c # cur) cs)" by simp
    from Cons.IH [OF this] show ?thesis by auto
  qed
qed

lemma split_on_chars:
  "p \<in> set (split_on sep cur s) \<Longrightarrow> set p \<subseteq> set cur \<union> set s"
proof (induction sep cur s rule: split_on.induct)
  case (1 sep cur)
  then show ?case by simp
next
  case (2 sep cur x xs)
  show ?case
  proof (cases "sep \<noteq> [] \<and> take (length sep) (x # xs) = sep")
    case True
    with "2.prems" have "p = rev cur \<or> p \<in> set (split_on sep [] (drop (length sep - 1) xs))"
      by simp
    then show ?thesis
    proof
      assume "p = rev cur"
      then show ?thesis by auto
    next
      assume "p \<in> set (split_on sep [] (drop (length sep - 1) xs))"
      from "2.IH"(1) [OF True this] have "set p \<subseteq> set (drop (length sep - 1) xs)" by simp
      with set_drop_subset [of "length sep - 1" xs] show ?thesis by auto
    qed
  next
    case False
    with "2.prems" have "p \<in> set (split_on sep (x # cur) xs)" by auto
    from "2.IH"(2) [OF False this] show ?thesis by auto
  qed
qed

lemma blank_pieces:
  assumes "list_all is_space text" and "\<forall>p \<in> set ps. set p \<subseteq> set text"
  shows "filter (\<lambda>s. py_strip s \<noteq> []) ps = []"
proof -
  have "py_strip p = []" if "p \<in> set ps" for p
  proof -
    from that assms have "list_all is_space p" by (auto simp: list_all_iff)
    then show ?thesis by (rule py_strip_all_space)
  qed
  then show ?thesis by (simp add: filter_empty_conv)
qed

lemma split_into_sentences_blank:
  assumes "list_all is_space text"
  shows "split_into_sentences text = []"
proof -
  have "\<forall>p \<in> set (re_split [] [] text). set p \<subseteq> set text"
    using re_split_chars [of _ "[]" "[]" "text"] by auto
  from blank_pieces [OF assms this] show ?thesis by (simp add: split_into_sentences_def)
qed

lemma preprocess_blank:
  assumes "list_all is_space raw" and "batch_type \<in> set [''sentence'', ''paragraph'', ''page'']"
  shows "preprocess E batch_type raw = Inr []"
proof -
  have "filter (\<lambda>s. py_strip s \<noteq> []) (split_on sep [] raw) = []" for sep
  proof -
    have "\<forall>p \<in> set (split_on sep [] raw). set p \<subseteq> set raw"
      using split_on_chars [of _ sep "[]" raw] by auto
    from blank_pieces [OF assms(1) this] show ?thesis .
  qed
  with assms(2) show ?thesis
    by (auto simp: preprocess_def enumerate_str_def)
qed

text \<open>
  Claim C5, as the code has it. For a text of whitespace only, the empty text included,
  \<open>process_input\<close> raises \<open>ValueError\<close> (no valid units) and leaves the tables and the HDF5
  groups as they were. \<open>process_document\<close> does not reject such a text: when the new row
  meets no constraint, it stores the document row and the HDF5 entry of the document, with
  no sentence, and returns a document of zero sentences.
\<close>

theorem blank_text:
  assumes "list_all is_space text"
  shows "(batch_type \<in> set [''sentence'', ''paragraph'', ''page''] \<longrightarrow>
            process_input E batch_type dd text
              = (Inl (ValueError ''No valid units found in input text''),
                 dd\<lparr>dd_drawn := Suc (dd_drawn dd)\<rparr>))
       \<and> (uuid4_str E (drawn st) \<notin> set (map d_uuid (documents st)) \<and>
          (dbidL, dbidS) \<notin> set (map (\<lambda>r. (d_dbidL r, d_dbidS r)) (documents st)) \<and> dbidS \<noteq> [] \<longrightarrow>
            (\<exists>info st'. process_document E st text dbidL (Some dbidS) title source metadata
                           = (Inr info, st')
               \<and> di_sentence_count info = 0
               \<and> documents st' = documents st @
                    [\<lparr>d_uuid = di_uuid info, d_dbidL = dbidL, d_dbidS = dbidS, d_title = title,
                      d_source = source, d_metadata = metadata\<rparr>]
               \<and> h5_documents st' (di_uuid info) \<noteq> None
               \<and> sentences st' = sentences st))"
proof -
  have 1: "process_input E batch_type dd text
              = (Inl (ValueError ''No valid units found in input text''),
                 dd\<lparr>dd_drawn := Suc (dd_drawn dd)\<rparr>)"
    if "batch_type \<in> set [''sentence'', ''paragraph'', ''page'']"
    using preprocess_blank [OF assms that] by (simp add: process_input_def Let_def)
  have 2: "\<exists>info st'. process_document E st text dbidL (Some dbidS) title source metadata
                           = (Inr info, st')
               \<and> di_sentence_count info = 0
               \<and> documents st' = documents st @
                    [\<lparr>d_uuid = di_uuid info, d_dbidL = dbidL, d_dbidS = dbidS, d_title = title,
                      d_source = source, d_metadata = metadata\<rparr>]
               \<and> h5_documents st' (di_uuid info) \<noteq> None
               \<and> sentences st' = sentences st"
    if "uuid4_str E (drawn st) \<notin> set (map d_uuid (documents st))"
      and "(dbidL, dbidS) \<notin> set (map (\<lambda>r. (d_dbidL r, d_dbidS r)) (documents st))"
      and "dbidS \<noteq> []"
    using that split_into_sentences_blank [OF assms]
    by (simp add: process_document_def Let_def insert_document_def store_document_h5_def)
  from 1 2 show ?thesis by blast
qed

theorem blank_text_witness:
  "process_input demo_env ''sentence'' empty_dd ''   ''
     = (Inl (ValueError ''No valid units found in input text''), empty_dd\<lparr>dd_drawn := 1\<rparr>)
   \<and> (\<exists>info st'. process_document demo_env empty_db ''   '' ''D1'' (Some ''d1'') None None None
                     = (Inr info, st')
         \<and> di_sentence_count info = 0 \<and> sentences st' = [])"
proof -
  have blank: "list_all is_space ''   ''" by (simp add: is_space_def)
  from blank_text [OF blank, of "''sentence''" demo_env empty_dd empty_db "''D1''" "''d1''" None None None]
  show ?thesis by (simp add: empty_db_def empty_dd_def) blast
qed

text \<open>
  Claim C5 as the specification states it asks for a failure before any write. On the
  text of three spaces \<open>process_document\<close> returns a document of zero sentences, after it
  has inserted the document row and written the HDF5 entry with the content.
\<close>

theorem blank_text_counterexample:
  "list_all is_space ''   ''
   \<and> map d_uuid (documents (snd blank_doc)) = [''00000000-aaaa-4bbb-8ccc-000000000000'']
   \<and> map_option hd_content (h5_documents (snd blank_doc) ''00000000-aaaa-4bbb-8ccc-000000000000'')
       = Some ''   ''
   \<and> map_sum id di_sentence_count (fst blank_doc) = Inr 0"
  by code_simp

end
